theory Spec2Isabelle
  imports Main "HOL-Library.Word"
begin

unbundle bit_operations_syntax

section \<open>Python values\<close>

text \<open>
  A Python \<open>str\<close> is a sequence of Unicode code points, and \<open>len\<close>, slicing and
  iteration count code points; it is modelled as a list of natural numbers. A \<open>bytes\<close>
  object is a list of 8-bit words. \<open>lit\<close> turns an ASCII literal of the source into its
  code points; the emoji of the source are written as their code points.
\<close>

type_synonym byte = "8 word"
type_synonym u32 = "32 word"
type_synonym pystr = "nat list"

definition lit :: "string \<Rightarrow> pystr" where
  "lit s = map of_char s"

text \<open>The exceptions that the modelled code can raise.\<close>

datatype err =
    AttributeError
  | TypeError
  | UnicodeEncodeError
  | UnicodeDecodeError
  | JSONDecodeError
  | RecursionError

text \<open>Sequencing of two computations that may raise: the first exception wins.\<close>

definition bnd :: "err + 'a \<Rightarrow> ('a \<Rightarrow> err + 'b) \<Rightarrow> err + 'b" where
  "bnd m f = (case m of Inl e \<Rightarrow> Inl e | Inr v \<Rightarrow> f v)"

section \<open>The standard library calls of the signature check\<close>

subsection \<open>\<open>str.encode('utf-8')\<close>\<close>

text \<open>
  A lone surrogate (U+D800 .. U+DFFF) cannot be encoded and raises \<open>UnicodeEncodeError\<close>.
  A number above U+10FFFF is not a Python character; the model raises there too.
\<close>

definition utf8_char :: "nat \<Rightarrow> err + byte list" where
  "utf8_char c =
     (if c < 0x80 then Inr [of_nat c]
      else if c < 0x800 then Inr [of_nat (0xC0 + c div 64), of_nat (0x80 + c mod 64)]
      else if c < 0xD800 \<or> (0xE000 \<le> c \<and> c < 0x10000) then
        Inr [of_nat (0xE0 + c div 4096), of_nat (0x80 + c div 64 mod 64),
             of_nat (0x80 + c mod 64)]
      else if 0x10000 \<le> c \<and> c < 0x110000 then
        Inr [of_nat (0xF0 + c div 262144), of_nat (0x80 + c div 4096 mod 64),
             of_nat (0x80 + c div 64 mod 64), of_nat (0x80 + c mod 64)]
      else Inl UnicodeEncodeError)"

fun encode_utf8 :: "pystr \<Rightarrow> err + byte list" where
  "encode_utf8 [] = Inr []"
| "encode_utf8 (c # cs) =
     bnd (utf8_char c) (\<lambda>bs. bnd (encode_utf8 cs) (\<lambda>rest. Inr (bs @ rest)))"

subsection \<open>\<open>hashlib.sha256\<close> (FIPS 180-4)\<close>

text \<open>
  The round constants are the first 32 bits of the fractional parts of the cube roots of
  the first 64 primes, and the initial hash value those of the square roots of the first
  8 primes; both are written in decimal.
\<close>

definition sha256_k :: "u32 list" where
  "sha256_k = [
    1116352408, 1899447441, 3049323471, 3921009573, 961987163, 1508970993, 2453635748, 2870763221,
    3624381080, 310598401, 607225278, 1426881987, 1925078388, 2162078206, 2614888103, 3248222580,
    3835390401, 4022224774, 264347078, 604807628, 770255983, 1249150122, 1555081692, 1996064986,
    2554220882, 2821834349, 2952996808, 3210313671, 3336571891, 3584528711, 113926993, 338241895,
    666307205, 773529912, 1294757372, 1396182291, 1695183700, 1986661051, 2177026350, 2456956037,
    2730485921, 2820302411, 3259730800, 3345764771, 3516065817, 3600352804, 4094571909, 275423344,
    430227734, 506948616, 659060556, 883997877, 958139571, 1322822218, 1537002063, 1747873779,
    1955562222, 2024104815, 2227730452, 2361852424, 2428436474, 2756734187, 3204031479, 3329325298]"

definition sha256_h0 :: "u32 list" where
  "sha256_h0 = [1779033703, 3144134277, 1013904242, 2773480762,
                1359893119, 2600822924, 528734635, 1541459225]"

definition rotr :: "nat \<Rightarrow> u32 \<Rightarrow> u32" where
  "rotr n x = (drop_bit n x) OR (push_bit (32 - n) x)"

definition small_sigma0 :: "u32 \<Rightarrow> u32" where
  "small_sigma0 x = rotr 7 x XOR rotr 18 x XOR drop_bit 3 x"

definition small_sigma1 :: "u32 \<Rightarrow> u32" where
  "small_sigma1 x = rotr 17 x XOR rotr 19 x XOR drop_bit 10 x"

definition big_sigma0 :: "u32 \<Rightarrow> u32" where
  "big_sigma0 x = rotr 2 x XOR rotr 13 x XOR rotr 22 x"

definition big_sigma1 :: "u32 \<Rightarrow> u32" where
  "big_sigma1 x = rotr 6 x XOR rotr 11 x XOR rotr 25 x"

definition ch :: "u32 \<Rightarrow> u32 \<Rightarrow> u32 \<Rightarrow> u32" where
  "ch x y z = (x AND y) XOR (NOT x AND z)"

definition maj :: "u32 \<Rightarrow> u32 \<Rightarrow> u32 \<Rightarrow> u32" where
  "maj x y z = (x AND y) XOR (x AND z) XOR (y AND z)"

text \<open>The \<open>k\<close> low-order bytes of a number, most significant first.\<close>

fun be_bytes :: "nat \<Rightarrow> nat \<Rightarrow> byte list" where
  "be_bytes 0 n = []"
| "be_bytes (Suc k) n = be_bytes k (n div 256) @ [of_nat (n mod 256)]"

fun be_word :: "byte list \<Rightarrow> u32" where
  "be_word [] = 0"
| "be_word (b # bs) = push_bit (8 * length bs) (ucast b) + be_word bs"

fun chunks :: "nat \<Rightarrow> 'a list \<Rightarrow> 'a list list" where
  "chunks n [] = []"
| "chunks n (x # xs) =
     (if n = 0 then [] else take n (x # xs) # chunks n (drop n (x # xs)))"

definition sha256_pad :: "byte list \<Rightarrow> byte list" where
  "sha256_pad m =
     m @ [0x80] @ replicate ((119 - length m mod 64) mod 64) 0 @ be_bytes 8 (8 * length m)"

fun schedule :: "nat \<Rightarrow> u32 list \<Rightarrow> u32 list" where
  "schedule 0 w = w"
| "schedule (Suc n) w =
     schedule n (w @ [small_sigma1 (w ! (length w - 2)) + w ! (length w - 7)
                      + small_sigma0 (w ! (length w - 15)) + w ! (length w - 16)])"

type_synonym sha_state = "u32 \<times> u32 \<times> u32 \<times> u32 \<times> u32 \<times> u32 \<times> u32 \<times> u32"

definition sha256_round :: "sha_state \<Rightarrow> u32 \<times> u32 \<Rightarrow> sha_state" where
  "sha256_round st kw =
     (case st of (a, b, c, d, e, f, g, h) \<Rightarrow>
        (let t1 = h + big_sigma1 e + ch e f g + fst kw + snd kw;
             t2 = big_sigma0 a + maj a b c
         in (t1 + t2, a, b, c, d + t1, e, f, g)))"

definition sha256_compress :: "u32 list \<Rightarrow> byte list \<Rightarrow> u32 list" where
  "sha256_compress hs block =
     (let w = schedule 48 (map be_word (chunks 4 block));
          st0 = (hs ! 0, hs ! 1, hs ! 2, hs ! 3, hs ! 4, hs ! 5, hs ! 6, hs ! 7)
      in case foldl sha256_round st0 (zip sha256_k w) of
           (a, b, c, d, e, f, g, h) \<Rightarrow> map2 (+) hs [a, b, c, d, e, f, g, h])"

definition sha256 :: "byte list \<Rightarrow> byte list" where
  "sha256 m =
     concat (map (\<lambda>w. be_bytes 4 (unat w))
       (foldl sha256_compress sha256_h0 (chunks 64 (sha256_pad m))))"

subsection \<open>\<open>hmac.new(key, msg, hashlib.sha256)\<close> (RFC 2104) and \<open>hexdigest\<close>\<close>

definition hmac_sha256 :: "byte list \<Rightarrow> byte list \<Rightarrow> byte list" where
  "hmac_sha256 key msg =
     (let akey = (if length key > 64 then sha256 key else key);
          k = akey @ replicate (64 - length akey) 0
      in sha256 (map (\<lambda>b. b XOR 0x5c) k @ sha256 (map (\<lambda>b. b XOR 0x36) k @ msg)))"

text \<open>Lower-case hexadecimal: \<open>0\<close>..\<open>9\<close> are 48..57 and \<open>a\<close>..\<open>f\<close> are 97..102.\<close>

definition hex_digit :: "nat \<Rightarrow> nat" where
  "hex_digit n = (if n < 10 then 48 + n else 87 + n)"

definition hexdigest :: "byte list \<Rightarrow> pystr" where
  "hexdigest bs = concat (map (\<lambda>b. [hex_digit (unat b div 16), hex_digit (unat b mod 16)]) bs)"

subsection \<open>\<open>str.startswith\<close>, \<open>str.replace\<close>, \<open>hmac.compare_digest\<close>\<close>

definition startswith :: "pystr \<Rightarrow> pystr \<Rightarrow> bool" where
  "startswith s p = (take (length p) s = p)"

text \<open>
  \<open>s.replace(old, new)\<close> replaces every occurrence of \<open>old\<close>, scanning from the left
  without overlap; with an empty \<open>old\<close>, Python puts \<open>new\<close> before every character
  and at the end.
\<close>

function py_replace :: "pystr \<Rightarrow> pystr \<Rightarrow> pystr \<Rightarrow> pystr" where
  "py_replace old new [] = (if old = [] then new else [])"
| "py_replace old new (c # cs) =
     (if old = [] then new @ concat (map (\<lambda>x. x # new) (c # cs))
      else if startswith (c # cs) old then new @ py_replace old new (drop (length old) (c # cs))
      else c # py_replace old new cs)"
  by pat_completeness auto
termination
  by (relation "measure (\<lambda>(old, new, s). length s)") auto

text \<open>
  \<open>hmac.compare_digest\<close> on two \<open>str\<close> arguments raises \<open>TypeError\<close> unless both are
  ASCII; otherwise it is equality (in constant time, which the model does not show).
\<close>

definition is_ascii :: "pystr \<Rightarrow> bool" where
  "is_ascii s = list_all (\<lambda>c. c < 128) s"

definition compare_digest :: "pystr \<Rightarrow> pystr \<Rightarrow> err + bool" where
  "compare_digest a b = (if is_ascii a \<and> is_ascii b then Inr (a = b) else Inl TypeError)"

section \<open>Configuration (\<open>config.py\<close>)\<close>

record config =
  telegram_token :: pystr
  github_token :: pystr
  github_username :: pystr
  webhook_port :: int
  webhook_host :: pystr
  webhook_secret :: pystr
  github_api_base :: pystr
  bot_admin_id :: pystr

section \<open>Signature verification (\<open>WebhookHandler._verify_signature\<close>)\<close>

definition verify_signature :: "config \<Rightarrow> byte list \<Rightarrow> pystr \<Rightarrow> err + bool" where
  "verify_signature cfg payload signature =
     (if webhook_secret cfg = [] then Inr True
      else if signature = [] then Inr False
      else bnd (encode_utf8 (webhook_secret cfg)) (\<lambda>key.
        let expected_signature = hexdigest (hmac_sha256 key payload);
            signature_header = py_replace (lit ''sha256='') [] signature
        in compare_digest expected_signature signature_header))"

section \<open>Parsed payloads and the dynamic operations applied to them\<close>

text \<open>
  What \<open>json.loads\<close> returns: \<open>None\<close>, a \<open>bool\<close>, an unbounded \<open>int\<close>, a \<open>float\<close>
  (kept as its 64 IEEE bits; the code only tests a float for zero and prints it), a
  \<open>str\<close>, a \<open>list\<close>, or a \<open>dict\<close> with string keys (an association list with distinct
  keys, in insertion order).
\<close>

datatype json =
    JNull
  | JBool bool
  | JInt int
  | JFloat "64 word"
  | JStr pystr
  | JList "json list"
  | JDict "(pystr \<times> json) list"

text \<open>
  \<open>d.get(k, dflt)\<close>: the value stored under \<open>k\<close>, or \<open>dflt\<close> when the key is absent; only
  a \<open>dict\<close> has the method.
\<close>

definition dict_get :: "(pystr \<times> json) list \<Rightarrow> pystr \<Rightarrow> json \<Rightarrow> json" where
  "dict_get kvs k dflt = (case map_of kvs k of Some v \<Rightarrow> v | None \<Rightarrow> dflt)"

definition py_get :: "json \<Rightarrow> pystr \<Rightarrow> json \<Rightarrow> err + json" where
  "py_get d k dflt =
     (case d of
        JDict kvs \<Rightarrow> Inr (dict_get kvs k dflt)
      | _ \<Rightarrow> Inl AttributeError)"

text \<open>Truth value of an object, as \<open>not x\<close> and \<open>x and y\<close> test it.\<close>

definition truthy :: "json \<Rightarrow> bool" where
  "truthy v =
     (case v of
        JNull \<Rightarrow> False
      | JBool b \<Rightarrow> b
      | JInt i \<Rightarrow> i \<noteq> 0
      | JFloat w \<Rightarrow> w \<noteq> 0 \<and> w \<noteq> 0x8000000000000000
      | JStr s \<Rightarrow> s \<noteq> []
      | JList xs \<Rightarrow> xs \<noteq> []
      | JDict kvs \<Rightarrow> kvs \<noteq> [])"

definition py_len :: "json \<Rightarrow> err + nat" where
  "py_len v =
     (case v of
        JStr s \<Rightarrow> Inr (length s)
      | JList xs \<Rightarrow> Inr (length xs)
      | JDict kvs \<Rightarrow> Inr (length kvs)
      | _ \<Rightarrow> Inl TypeError)"

text \<open>
  \<open>v[:n]\<close>: a \<open>str\<close> and a \<open>list\<close> are sliced; a \<open>dict\<close> rejects a slice as key and
  the other objects are not subscriptable.
\<close>

definition py_slice :: "nat \<Rightarrow> json \<Rightarrow> err + json" where
  "py_slice n v =
     (case v of
        JStr s \<Rightarrow> Inr (JStr (take n s))
      | JList xs \<Rightarrow> Inr (JList (take n xs))
      | _ \<Rightarrow> Inl TypeError)"

text \<open>The items a \<open>for\<close> loop visits: a \<open>str\<close> yields its one-character strings.\<close>

definition py_iter :: "json \<Rightarrow> err + json list" where
  "py_iter v =
     (case v of
        JStr s \<Rightarrow> Inr (map (\<lambda>c. JStr [c]) s)
      | JList xs \<Rightarrow> Inr xs
      | JDict kvs \<Rightarrow> Inr (map (\<lambda>kv. JStr (fst kv)) kvs)
      | _ \<Rightarrow> Inl TypeError)"

definition py_startswith :: "json \<Rightarrow> pystr \<Rightarrow> err + bool" where
  "py_startswith v p = (case v of JStr s \<Rightarrow> Inr (startswith s p) | _ \<Rightarrow> Inl AttributeError)"

text \<open>\<open>x in [s1, s2, ...]\<close> for a list of string literals: only an equal string is found.\<close>

definition py_in :: "json \<Rightarrow> pystr list \<Rightarrow> bool" where
  "py_in v ss = (case v of JStr s \<Rightarrow> s \<in> set ss | _ \<Rightarrow> False)"

text \<open>
  \<open>{...}.get(key, dflt)\<close> on a dict literal with string keys: a \<open>list\<close> or \<open>dict\<close> key
  is unhashable.
\<close>

definition table_get :: "(pystr \<times> pystr) list \<Rightarrow> json \<Rightarrow> pystr \<Rightarrow> err + pystr" where
  "table_get tbl key dflt =
     (case key of
        JStr s \<Rightarrow> Inr (case map_of tbl s of Some v \<Rightarrow> v | None \<Rightarrow> dflt)
      | JList xs \<Rightarrow> Inl TypeError
      | JDict kvs \<Rightarrow> Inl TypeError
      | _ \<Rightarrow> Inr dflt)"

text \<open>
  \<open>str.title()\<close> on ASCII letters: a letter that follows a letter is lower-cased, any
  other letter is upper-cased. The source applies it to the action only, after the
  action was found among lower-case ASCII literals.
\<close>

fun title_from :: "bool \<Rightarrow> pystr \<Rightarrow> pystr" where
  "title_from prev [] = []"
| "title_from prev (c # cs) =
     (if 97 \<le> c \<and> c \<le> 122 then (if prev then c else c - 32) # title_from True cs
      else if 65 \<le> c \<and> c \<le> 90 then (if prev then c + 32 else c) # title_from True cs
      else c # title_from False cs)"

definition py_title :: "json \<Rightarrow> err + pystr" where
  "py_title v = (case v of JStr s \<Rightarrow> Inr (title_from False s) | _ \<Rightarrow> Inl AttributeError)"

text \<open>Decimal digits of a number, and \<open>str\<close> of an \<open>int\<close>.\<close>

fun str_nat :: "nat \<Rightarrow> pystr" where
  "str_nat n = (if n < 10 then [48 + n] else str_nat (n div 10) @ [48 + n mod 10])"

declare str_nat.simps [simp del]

definition str_int :: "int \<Rightarrow> pystr" where
  "str_int i = (if i < 0 then 45 # str_nat (nat (- i)) else str_nat (nat i))"

text \<open>
  What an f-string writes for \<open>{v}\<close>, that is \<open>str(v)\<close>. The text Python prints for a
  float, a list or a dict is not code of this repository; it is the parameter \<open>rp\<close>.
\<close>

definition py_str :: "(json \<Rightarrow> pystr) \<Rightarrow> json \<Rightarrow> pystr" where
  "py_str rp v =
     (case v of
        JNull \<Rightarrow> lit ''None''
      | JBool b \<Rightarrow> (if b then lit ''True'' else lit ''False'')
      | JInt i \<Rightarrow> str_int i
      | JStr s \<Rightarrow> s
      | _ \<Rightarrow> rp v)"

text \<open>\<open>try: ... except Exception: return ""\<close>.\<close>

definition catch :: "err + pystr \<Rightarrow> err + pystr" where
  "catch m = (case m of Inl e \<Rightarrow> Inr [] | Inr v \<Rightarrow> Inr v)"

section \<open>Text escaping (\<open>utils.escape_markdown\<close>)\<close>

definition escape_chars :: pystr where
  "escape_chars = lit ''_*[]()~`>#+-=|{}.!''"

fun escape_markdown :: "pystr \<Rightarrow> pystr" where
  "escape_markdown [] = []"
| "escape_markdown (c # cs) =
     (if c \<in> set escape_chars then 92 # c # escape_markdown cs
      else c # escape_markdown cs)"

section \<open>Event formatting (\<open>WebhookHandler._process_*_event\<close>)\<close>

text \<open>
  Each \<open>*_body\<close> is the body of the \<open>try\<close> of one method; a line break is code point 10.
\<close>

subsection \<open>Push\<close>

definition commit_entry :: "(json \<Rightarrow> pystr) \<Rightarrow> json \<Rightarrow> err + pystr" where
  "commit_entry rp commit =
     bnd (py_get commit (lit ''message'') (JStr (lit ''No message''))) (\<lambda>commit_message.
     bnd (py_get commit (lit ''author'') (JDict [])) (\<lambda>author.
     bnd (py_get author (lit ''name'') (JStr (lit ''Unknown''))) (\<lambda>author_name.
     bnd (py_get commit (lit ''id'') (JStr [])) (\<lambda>full_id.
     bnd (py_slice 7 full_id) (\<lambda>commit_id.
     Inr (concat
       [[0x1F538], lit '' **'', py_str rp commit_message, lit ''**'', [10],
        [0x1F464], lit '' '', py_str rp author_name, lit '' '', [0x2022], lit '' `'',
        py_str rp commit_id, lit ''`'', [10, 10]]))))))"

fun commit_entries :: "(json \<Rightarrow> pystr) \<Rightarrow> json list \<Rightarrow> err + pystr" where
  "commit_entries rp [] = Inr []"
| "commit_entries rp (commit # rest) =
     bnd (commit_entry rp commit) (\<lambda>entry.
     bnd (commit_entries rp rest) (\<lambda>more. Inr (entry @ more)))"

definition push_body :: "(json \<Rightarrow> pystr) \<Rightarrow> json \<Rightarrow> err + pystr" where
  "push_body rp data =
     bnd (py_get data (lit ''repository'') (JDict [])) (\<lambda>repository.
     bnd (py_get data (lit ''pusher'') (JDict [])) (\<lambda>pusher.
     bnd (py_get data (lit ''commits'') (JList [])) (\<lambda>commits.
     bnd (py_get data (lit ''ref'') (JStr [])) (\<lambda>ref.
     bnd (py_get repository (lit ''full_name'') (JStr (lit ''Unknown''))) (\<lambda>repo_name.
     bnd (py_get pusher (lit ''name'') (JStr (lit ''Unknown''))) (\<lambda>pusher_name.
     bnd (py_startswith ref (lit ''refs/heads/'')) (\<lambda>is_head.
     let branch = (case ref of
                     JStr r \<Rightarrow> if is_head then py_replace (lit ''refs/heads/'') [] r else r
                   | _ \<Rightarrow> [])
     in
     if \<not> truthy commits then Inr []
     else
     bnd (py_len commits) (\<lambda>commit_count.
     let commit_word = (if commit_count = 1 then lit ''commit'' else lit ''commits'');
         message = concat
           [[0x1F4DD], lit '' **New '', commit_word, lit '' to '', py_str rp repo_name,
            lit ''**'', [10, 10],
            [0x1F33F], lit '' Branch: `'', branch, lit ''`'', [10],
            [0x1F464], lit '' Pusher: '', py_str rp pusher_name, [10],
            [0x1F4CA], lit '' '', str_nat commit_count, lit '' '', commit_word, [10, 10]]
     in
     bnd (py_slice 3 commits) (\<lambda>first3.
     bnd (py_iter first3) (\<lambda>shown.
     bnd (commit_entries rp shown) (\<lambda>entries.
     let trailer = (if commit_count > 3
                    then concat [lit ''... and '', str_nat (commit_count - 3),
                                 lit '' more commits'', [10, 10]]
                    else [])
     in
     bnd (py_get repository (lit ''html_url'') (JStr [])) (\<lambda>repo_url.
     Inr (concat [message, entries, trailer,
                  [0x1F517], lit '' [View Repository]('', py_str rp repo_url, lit '')'']
         )))))))))))))"

definition process_push_event :: "(json \<Rightarrow> pystr) \<Rightarrow> json \<Rightarrow> err + pystr" where
  "process_push_event rp data = catch (push_body rp data)"

subsection \<open>Pull request\<close>

definition pull_request_body :: "(json \<Rightarrow> pystr) \<Rightarrow> json \<Rightarrow> err + pystr" where
  "pull_request_body rp data =
     bnd (py_get data (lit ''action'') (JStr [])) (\<lambda>action.
     bnd (py_get data (lit ''pull_request'') (JDict [])) (\<lambda>pull_request.
     bnd (py_get data (lit ''repository'') (JDict [])) (\<lambda>repository.
     if \<not> py_in action [lit ''opened'', lit ''closed'', lit ''merged''] then Inr []
     else
     bnd (py_get repository (lit ''full_name'') (JStr (lit ''Unknown''))) (\<lambda>repo_name.
     bnd (py_get pull_request (lit ''title'') (JStr (lit ''No title''))) (\<lambda>pr_title.
     bnd (py_get pull_request (lit ''number'') (JInt 0)) (\<lambda>pr_number.
     bnd (py_get pull_request (lit ''user'') (JDict [])) (\<lambda>user.
     bnd (py_get user (lit ''login'') (JStr (lit ''Unknown''))) (\<lambda>pr_user.
     bnd (py_get pull_request (lit ''html_url'') (JStr [])) (\<lambda>pr_url.
     bnd (table_get [(lit ''opened'', [0x1F7E2]), (lit ''closed'', [0x1F534]),
                     (lit ''merged'', [0x1F7E3])] action [0x1F4CB]) (\<lambda>action_emoji.
     bnd (py_title action) (\<lambda>action_title.
     Inr (concat
       [action_emoji, lit '' **Pull Request '', action_title, lit ''**'', [10, 10],
        [0x1F4E6], lit '' Repository: '', py_str rp repo_name, [10],
        [0x1F527], lit '' PR #'', py_str rp pr_number, lit '': '', py_str rp pr_title, [10],
        [0x1F464], lit '' Author: '', py_str rp pr_user, [10, 10],
        [0x1F517], lit '' [View Pull Request]('', py_str rp pr_url, lit '')'']
       ))))))))))))"

definition process_pull_request_event :: "(json \<Rightarrow> pystr) \<Rightarrow> json \<Rightarrow> err + pystr" where
  "process_pull_request_event rp data = catch (pull_request_body rp data)"

subsection \<open>Issues\<close>

definition issues_body :: "(json \<Rightarrow> pystr) \<Rightarrow> json \<Rightarrow> err + pystr" where
  "issues_body rp data =
     bnd (py_get data (lit ''action'') (JStr [])) (\<lambda>action.
     bnd (py_get data (lit ''issue'') (JDict [])) (\<lambda>issue.
     bnd (py_get data (lit ''repository'') (JDict [])) (\<lambda>repository.
     if \<not> py_in action [lit ''opened'', lit ''closed'', lit ''reopened''] then Inr []
     else
     bnd (py_get repository (lit ''full_name'') (JStr (lit ''Unknown''))) (\<lambda>repo_name.
     bnd (py_get issue (lit ''title'') (JStr (lit ''No title''))) (\<lambda>issue_title.
     bnd (py_get issue (lit ''number'') (JInt 0)) (\<lambda>issue_number.
     bnd (py_get issue (lit ''user'') (JDict [])) (\<lambda>user.
     bnd (py_get user (lit ''login'') (JStr (lit ''Unknown''))) (\<lambda>issue_user.
     bnd (py_get issue (lit ''html_url'') (JStr [])) (\<lambda>issue_url.
     bnd (table_get [(lit ''opened'', [0x1F7E2]), (lit ''closed'', [0x1F534]),
                     (lit ''reopened'', [0x1F7E1])] action [0x1F41B]) (\<lambda>action_emoji.
     bnd (py_title action) (\<lambda>action_title.
     Inr (concat
       [action_emoji, lit '' **Issue '', action_title, lit ''**'', [10, 10],
        [0x1F4E6], lit '' Repository: '', py_str rp repo_name, [10],
        [0x1F41B], lit '' Issue #'', py_str rp issue_number, lit '': '',
        py_str rp issue_title, [10],
        [0x1F464], lit '' Author: '', py_str rp issue_user, [10, 10],
        [0x1F517], lit '' [View Issue]('', py_str rp issue_url, lit '')'']
       ))))))))))))"

definition process_issues_event :: "(json \<Rightarrow> pystr) \<Rightarrow> json \<Rightarrow> err + pystr" where
  "process_issues_event rp data = catch (issues_body rp data)"

subsection \<open>Star\<close>

definition star_body :: "(json \<Rightarrow> pystr) \<Rightarrow> json \<Rightarrow> err + pystr" where
  "star_body rp data =
     bnd (py_get data (lit ''action'') (JStr [])) (\<lambda>action.
     bnd (py_get data (lit ''repository'') (JDict [])) (\<lambda>repository.
     bnd (py_get data (lit ''sender'') (JDict [])) (\<lambda>sender.
     if action \<noteq> JStr (lit ''created'') then Inr []
     else
     bnd (py_get repository (lit ''full_name'') (JStr (lit ''Unknown''))) (\<lambda>repo_name.
     bnd (py_get repository (lit ''stargazers_count'') (JInt 0)) (\<lambda>star_count.
     bnd (py_get sender (lit ''login'') (JStr (lit ''Unknown''))) (\<lambda>user_name.
     bnd (py_get repository (lit ''html_url'') (JStr [])) (\<lambda>repo_url.
     Inr (concat
       [[0x2B50], lit '' **New Star!**'', [10, 10],
        [0x1F4E6], lit '' Repository: '', py_str rp repo_name, [10],
        [0x1F464], lit '' Starred by: '', py_str rp user_name, [10],
        [0x1F4CA], lit '' Total stars: '', py_str rp star_count, [10, 10],
        [0x1F517], lit '' [View Repository]('', py_str rp repo_url, lit '')'']
       ))))))))"

definition process_star_event :: "(json \<Rightarrow> pystr) \<Rightarrow> json \<Rightarrow> err + pystr" where
  "process_star_event rp data = catch (star_body rp data)"

subsection \<open>Fork\<close>

definition fork_body :: "(json \<Rightarrow> pystr) \<Rightarrow> json \<Rightarrow> err + pystr" where
  "fork_body rp data =
     bnd (py_get data (lit ''repository'') (JDict [])) (\<lambda>repository.
     bnd (py_get data (lit ''forkee'') (JDict [])) (\<lambda>forkee.
     bnd (py_get data (lit ''sender'') (JDict [])) (\<lambda>sender.
     bnd (py_get repository (lit ''full_name'') (JStr (lit ''Unknown''))) (\<lambda>repo_name.
     bnd (py_get repository (lit ''forks_count'') (JInt 0)) (\<lambda>fork_count.
     bnd (py_get sender (lit ''login'') (JStr (lit ''Unknown''))) (\<lambda>user_name.
     bnd (py_get forkee (lit ''html_url'') (JStr [])) (\<lambda>fork_url.
     Inr (concat
       [[0x1F374], lit '' **New Fork!**'', [10, 10],
        [0x1F4E6], lit '' Repository: '', py_str rp repo_name, [10],
        [0x1F464], lit '' Forked by: '', py_str rp user_name, [10],
        [0x1F4CA], lit '' Total forks: '', py_str rp fork_count, [10, 10],
        [0x1F517], lit '' [View Fork]('', py_str rp fork_url, lit '')'']
       ))))))))"

definition process_fork_event :: "(json \<Rightarrow> pystr) \<Rightarrow> json \<Rightarrow> err + pystr" where
  "process_fork_event rp data = catch (fork_body rp data)"

subsection \<open>Release\<close>

definition release_body :: "(json \<Rightarrow> pystr) \<Rightarrow> json \<Rightarrow> err + pystr" where
  "release_body rp data =
     bnd (py_get data (lit ''action'') (JStr [])) (\<lambda>action.
     bnd (py_get data (lit ''release'') (JDict [])) (\<lambda>release.
     bnd (py_get data (lit ''repository'') (JDict [])) (\<lambda>repository.
     if action \<noteq> JStr (lit ''published'') then Inr []
     else
     bnd (py_get repository (lit ''full_name'') (JStr (lit ''Unknown''))) (\<lambda>repo_name.
     bnd (py_get release (lit ''tag_name'') (JStr (lit ''Unknown''))) (\<lambda>name_default.
     bnd (py_get release (lit ''name'') name_default) (\<lambda>release_name.
     bnd (py_get release (lit ''tag_name'') (JStr (lit ''Unknown''))) (\<lambda>release_tag.
     bnd (py_get release (lit ''html_url'') (JStr [])) (\<lambda>release_url.
     bnd (py_get release (lit ''author'') (JDict [])) (\<lambda>author.
     bnd (py_get author (lit ''login'') (JStr (lit ''Unknown''))) (\<lambda>author_name.
     Inr (concat
       [[0x1F680], lit '' **New Release!**'', [10, 10],
        [0x1F4E6], lit '' Repository: '', py_str rp repo_name, [10],
        [0x1F3F7, 0xFE0F], lit '' Release: '', py_str rp release_name, lit '' ('',
        py_str rp release_tag, lit '')'', [10],
        [0x1F464], lit '' Author: '', py_str rp author_name, [10, 10],
        [0x1F517], lit '' [View Release]('', py_str rp release_url, lit '')'']
       )))))))))))"

definition process_release_event :: "(json \<Rightarrow> pystr) \<Rightarrow> json \<Rightarrow> err + pystr" where
  "process_release_event rp data = catch (release_body rp data)"

section \<open>Dispatch (\<open>WebhookHandler._process_event\<close>)\<close>

definition process_event_body :: "(json \<Rightarrow> pystr) \<Rightarrow> pystr \<Rightarrow> json \<Rightarrow> err + pystr" where
  "process_event_body rp event_type data =
     (if event_type = lit ''push'' then process_push_event rp data
      else if event_type = lit ''pull_request'' then process_pull_request_event rp data
      else if event_type = lit ''issues'' then process_issues_event rp data
      else if event_type = lit ''star'' then process_star_event rp data
      else if event_type = lit ''fork'' then process_fork_event rp data
      else if event_type = lit ''release'' then process_release_event rp data
      else Inr [])"

definition process_event :: "(json \<Rightarrow> pystr) \<Rightarrow> pystr \<Rightarrow> json \<Rightarrow> err + pystr" where
  "process_event rp event_type data = catch (process_event_body rp event_type data)"

section \<open>The endpoint (\<open>WebhookHandler.handle_webhook\<close>)\<close>

text \<open>
  The calls the handler makes, in order: \<open>JsonLoads\<close> is the call of \<open>json.loads\<close> on the
  decoded body, \<open>SendNotification m\<close> the call of \<open>_send_notification(m)\<close> (which logs
  the message and swallows its own exceptions). Other logging is not modelled. A response
  is the HTTP status with the one-entry JSON object given to \<open>jsonify\<close>.

  \<open>loads\<close> is \<open>json.loads(payload.decode('utf-8'))\<close>: it returns the parsed value, raises
  \<open>JSONDecodeError\<close>, or raises something else. \<open>UnicodeDecodeError\<close> comes from
  \<open>decode\<close>, before \<open>json.loads\<close> is called, so the trace stays empty there; any other
  exception (\<open>RecursionError\<close>) comes from \<open>json.loads\<close> itself.
  \<open>signature\<close> and \<open>event_type\<close> are the values of the headers \<open>X-Hub-Signature-256\<close> and
  \<open>X-GitHub-Event\<close>, empty when the header is absent.
\<close>

datatype effect = JsonLoads | SendNotification pystr

record outcome =
  status :: nat
  body :: "pystr \<times> pystr"
  trace :: "effect list"

definition handle_webhook ::
  "config \<Rightarrow> (byte list \<Rightarrow> err + json) \<Rightarrow> (json \<Rightarrow> pystr) \<Rightarrow>
   byte list \<Rightarrow> pystr \<Rightarrow> pystr \<Rightarrow> outcome" where
  "handle_webhook cfg loads rp payload signature event_type =
     (case verify_signature cfg payload signature of
        Inl e \<Rightarrow>
          \<lparr>status = 500, body = (lit ''error'', lit ''Internal server error''), trace = []\<rparr>
      | Inr valid \<Rightarrow>
          if \<not> valid then
            \<lparr>status = 403, body = (lit ''error'', lit ''Invalid signature''), trace = []\<rparr>
          else
            (case loads payload of
               Inl e \<Rightarrow>
                 if e = JSONDecodeError then
                   \<lparr>status = 400, body = (lit ''error'', lit ''Invalid JSON''),
                    trace = [JsonLoads]\<rparr>
                 else
                   \<lparr>status = 500, body = (lit ''error'', lit ''Internal server error''),
                    trace = (if e = UnicodeDecodeError then [] else [JsonLoads])\<rparr>
             | Inr data \<Rightarrow>
                 (case process_event rp event_type data of
                    Inl e \<Rightarrow>
                      \<lparr>status = 500, body = (lit ''error'', lit ''Internal server error''),
                       trace = [JsonLoads]\<rparr>
                  | Inr message \<Rightarrow>
                      if message \<noteq> [] \<and> bot_admin_id cfg \<noteq> [] then
                        \<lparr>status = 200, body = (lit ''status'', lit ''success''),
                         trace = [JsonLoads, SendNotification message]\<rparr>
                      else
                        \<lparr>status = 200, body = (lit ''status'', lit ''success''),
                         trace = [JsonLoads]\<rparr>)))"

section \<open>Definitions used to state the properties\<close>

text \<open>
  In the closed examples below, \<open>loads\<close> is the function that returns the parsed value
  of the example's body, and \<open>rp\<close> is the function that prints nothing: no example
  prints a float, a list or a dict.
\<close>

text \<open>
  The configuration that \<open>Config.__init__\<close> builds when only the two tokens, the webhook
  secret and the administrator id are set in the environment.
\<close>

definition config_with :: "pystr \<Rightarrow> pystr \<Rightarrow> config" where
  "config_with secret admin =
     \<lparr>telegram_token = lit ''t'', github_token = lit ''g'', github_username = [],
      webhook_port = 5000, webhook_host = lit ''0.0.0.0'', webhook_secret = secret,
      github_api_base = lit ''https://api.github.com'', bot_admin_id = admin\<rparr>"

text \<open>The bytes of an ASCII text, for request bodies.\<close>

definition bytes_lit :: "string \<Rightarrow> byte list" where
  "bytes_lit s = map of_char s"

text \<open>
  A \<open>star\<close> delivery: the request body, what \<open>json.loads\<close> makes of it, and the
  message the handler builds for it.
\<close>

definition star_request_body :: "byte list" where
  "star_request_body = bytes_lit
     ''{\"action\":\"created\",\"repository\":{\"full_name\":\"a/b\",\"stargazers_count\":5,\"html_url\":\"https://x\"},\"sender\":{\"login\":\"u\"}}''"

definition star_data :: json where
  "star_data = JDict
     [(lit ''action'', JStr (lit ''created'')),
      (lit ''repository'', JDict [(lit ''full_name'', JStr (lit ''a/b'')),
                                 (lit ''stargazers_count'', JInt 5),
                                 (lit ''html_url'', JStr (lit ''https://x''))]),
      (lit ''sender'', JDict [(lit ''login'', JStr (lit ''u''))])]"

definition star_message :: pystr where
  "star_message = concat
     [[0x2B50], lit '' **New Star!**'', [10, 10],
      [0x1F4E6], lit '' Repository: a/b'', [10],
      [0x1F464], lit '' Starred by: u'', [10],
      [0x1F4CA], lit '' Total stars: 5'', [10, 10],
      [0x1F517], lit '' [View Repository](https://x)'']"

text \<open>
  The text of one commit entry (empty where the commit cannot be rendered), and the
  commits that can be rendered: objects whose \<open>author\<close>, when present, is an object and
  whose \<open>id\<close>, when present, can be sliced.
\<close>

definition entry_of :: "(json \<Rightarrow> pystr) \<Rightarrow> json \<Rightarrow> pystr" where
  "entry_of rp commit = (case commit_entry rp commit of Inl e \<Rightarrow> [] | Inr entry \<Rightarrow> entry)"

definition is_dict :: "json \<Rightarrow> bool" where
  "is_dict v = (case v of JDict kvs \<Rightarrow> True | _ \<Rightarrow> False)"

definition sliceable :: "json \<Rightarrow> bool" where
  "sliceable v = (case v of JStr s \<Rightarrow> True | JList xs \<Rightarrow> True | _ \<Rightarrow> False)"

definition commit_ok :: "json \<Rightarrow> bool" where
  "commit_ok commit =
     (case commit of
        JDict kvs \<Rightarrow> is_dict (dict_get kvs (lit ''author'') (JDict [])) \<and>
                     sliceable (dict_get kvs (lit ''id'') (JStr []))
      | _ \<Rightarrow> False)"

text \<open>
  A \<open>push\<close> delivery with five commits and a \<open>pull_request\<close> delivery whose title and
  author contain markup characters.
\<close>

definition example_commit :: "string \<Rightarrow> json" where
  "example_commit m = JDict
     [(lit ''id'', JStr (lit ''0123456789abcdef'')), (lit ''message'', JStr (lit m)),
      (lit ''author'', JDict [(lit ''name'', JStr (lit ''n''))])]"

definition push5_data :: json where
  "push5_data = JDict
     [(lit ''ref'', JStr (lit ''refs/heads/main'')),
      (lit ''repository'', JDict [(lit ''full_name'', JStr (lit ''a/b'')),
                                 (lit ''html_url'', JStr (lit ''https://x''))]),
      (lit ''pusher'', JDict [(lit ''name'', JStr (lit ''u''))]),
      (lit ''commits'', JList [example_commit ''m1'', example_commit ''m2'',
                              example_commit ''m3'', example_commit ''m4'',
                              example_commit ''m5''])]"

definition pr_data :: json where
  "pr_data = JDict
     [(lit ''action'', JStr (lit ''opened'')),
      (lit ''pull_request'', JDict [(lit ''title'', JStr (lit ''a*b'')),
                                   (lit ''number'', JInt 42),
                                   (lit ''user'', JDict [(lit ''login'', JStr (lit ''u_1''))]),
                                   (lit ''html_url'', JStr (lit ''https://x''))]),
      (lit ''repository'', JDict [(lit ''full_name'', JStr (lit ''a/b''))])]"

text \<open>
  The header treatment that the specification words: only a leading \<open>sha256=\<close> is
  removed, the rest of the header is kept as it is. This follows the specification, not
  the source, and is compared with \<open>py_replace\<close> below.
\<close>

definition strip_leading_prefix :: "pystr \<Rightarrow> pystr" where
  "strip_leading_prefix signature =
     (if startswith signature (lit ''sha256='') then drop 7 signature else signature)"

section \<open>Hexadecimal digests and replacement\<close>

lemma lit_sha256: "lit ''sha256='' = [115, 104, 97, 50, 53, 54, 61]"
  by (simp add: lit_def)

lemma hex_digit_range: "n < 16 \<Longrightarrow> 48 \<le> hex_digit n \<and> hex_digit n \<le> 102"
  by (simp add: hex_digit_def)

lemma hex_digit_inj: "m < 16 \<Longrightarrow> n < 16 \<Longrightarrow> hex_digit m = hex_digit n \<Longrightarrow> m = n"
  by (auto simp: hex_digit_def split: if_splits)

lemma hexdigest_Nil: "hexdigest [] = []"
  by (simp add: hexdigest_def)

lemma hexdigest_Cons:
  "hexdigest (b # bs) = hex_digit (unat b div 16) # hex_digit (unat b mod 16) # hexdigest bs"
  by (simp add: hexdigest_def)

lemma byte_nibbles: "unat (b :: byte) div 16 < 16" "unat b mod 16 < 16"
  using unsigned_less [of b, where ?'a = nat] by simp_all

lemma hexdigest_chars: "c \<in> set (hexdigest bs) \<Longrightarrow> 48 \<le> c \<and> c \<le> 102"
proof (induction bs)
  case Nil
  then show ?case by (simp add: hexdigest_Nil)
next
  case (Cons b bs)
  then show ?case
    using hex_digit_range [OF byte_nibbles(1) [of b]] hex_digit_range [OF byte_nibbles(2) [of b]]
    by (auto simp: hexdigest_Cons)
qed

lemma length_hexdigest: "length (hexdigest bs) = 2 * length bs"
  by (induction bs) (simp_all add: hexdigest_Nil hexdigest_Cons)

lemma is_ascii_hexdigest: "is_ascii (hexdigest bs)"
  unfolding is_ascii_def list_all_iff using hexdigest_chars by fastforce

lemma hexdigest_no_s: "115 \<notin> set (hexdigest bs)"
  using hexdigest_chars [of 115 bs] by auto

text \<open>Two digests with the same hexadecimal text are the same bytes.\<close>

lemma hexdigest_inj: "hexdigest a = hexdigest b \<Longrightarrow> a = b"
proof (induction a arbitrary: b)
  case Nil
  then show ?case by (cases b) (simp_all add: hexdigest_Nil hexdigest_Cons)
next
  case (Cons x xs)
  then obtain y ys where b: "b = y # ys"
    by (cases b) (simp_all add: hexdigest_Nil hexdigest_Cons)
  from Cons.prems b have hi: "hex_digit (unat x div 16) = hex_digit (unat y div 16)"
    and lo: "hex_digit (unat x mod 16) = hex_digit (unat y mod 16)"
    and rest: "hexdigest xs = hexdigest ys"
    by (simp_all add: hexdigest_Cons)
  have "unat x div 16 = unat y div 16"
    using hex_digit_inj [OF byte_nibbles(1) byte_nibbles(1) hi] .
  moreover have "unat x mod 16 = unat y mod 16"
    using hex_digit_inj [OF byte_nibbles(2) byte_nibbles(2) lo] .
  ultimately have "unat x = unat y"
    by (metis div_mult_mod_eq)
  then have "x = y" by (simp add: word_unat_eq_iff)
  with Cons.IH [OF rest] b show ?case by simp
qed

text \<open>
  Replacement leaves a text alone up to the first occurrence of the first character of
  \<open>old\<close>, and removes \<open>old\<close> where the text starts with it.
\<close>

lemma startswith_Cons: "startswith (c # cs) (p # ps) \<Longrightarrow> c = p"
  by (simp add: startswith_def)

lemma py_replace_skip:
  "p \<notin> set s \<Longrightarrow> py_replace (p # ps) new (s @ t) = s @ py_replace (p # ps) new t"
proof (induction s)
  case Nil
  then show ?case by simp
next
  case (Cons c cs)
  then have "\<not> startswith (c # cs @ t) (p # ps)"
    using startswith_Cons by fastforce
  with Cons show ?case by simp
qed

lemma py_replace_absent: "p \<notin> set s \<Longrightarrow> py_replace (p # ps) new s = s"
  using py_replace_skip [of p s ps new "[]"] by simp

lemma py_replace_prefix:
  "py_replace (p # ps) new ((p # ps) @ t) = new @ py_replace (p # ps) new t"
  by (simp add: startswith_def)

section \<open>Properties of the signature check\<close>

lemma verify_nonempty:
  assumes "webhook_secret cfg \<noteq> []" "signature \<noteq> []"
    and "encode_utf8 (webhook_secret cfg) = Inr key"
  shows "verify_signature cfg payload signature =
         compare_digest (hexdigest (hmac_sha256 key payload))
           (py_replace (lit ''sha256='') [] signature)"
  using assms by (simp add: verify_signature_def bnd_def)

lemma verify_prefixed_digest:
  assumes "webhook_secret cfg \<noteq> []" and "encode_utf8 (webhook_secret cfg) = Inr key"
  shows "verify_signature cfg payload (lit ''sha256='' @ hexdigest (hmac_sha256 key other)) =
         Inr (hmac_sha256 key payload = hmac_sha256 key other)"
proof -
  have "py_replace (lit ''sha256='') [] (lit ''sha256='' @ hexdigest (hmac_sha256 key other)) =
        hexdigest (hmac_sha256 key other)"
    unfolding lit_sha256
    using py_replace_prefix [of 115 "[104, 97, 50, 53, 54, 61]" "[]"]
      py_replace_absent [OF hexdigest_no_s] by simp
  moreover have "lit ''sha256='' @ hexdigest (hmac_sha256 key other) \<noteq> []"
    by (simp add: lit_sha256)
  ultimately show ?thesis
    using assms hexdigest_inj [of "hmac_sha256 key payload" "hmac_sha256 key other"]
    by (auto simp: verify_nonempty compare_digest_def is_ascii_hexdigest)
qed




lemma verify_embedded_prefix:
  assumes "webhook_secret cfg \<noteq> []" and "encode_utf8 (webhook_secret cfg) = Inr key"
    and "h = hexdigest (hmac_sha256 key payload)"
  shows "verify_signature cfg payload
           (lit ''sha256='' @ take n h @ lit ''sha256='' @ drop n h) = Inr True"
proof -
  have a: "115 \<notin> set (take n h)" and b: "115 \<notin> set (drop n h)"
    using hexdigest_no_s [of "hmac_sha256 key payload"] assms(3)
    by (auto dest: in_set_takeD in_set_dropD)
  have "py_replace (lit ''sha256='') [] (lit ''sha256='' @ take n h @ lit ''sha256='' @ drop n h)
        = h"
    unfolding lit_sha256
    using py_replace_skip [OF a, of "[104, 97, 50, 53, 54, 61]" "[]"]
      py_replace_prefix [of 115 "[104, 97, 50, 53, 54, 61]" "[]"]
      py_replace_absent [OF b, of "[104, 97, 50, 53, 54, 61]" "[]"]
    by simp
  moreover have "lit ''sha256='' @ take n h @ lit ''sha256='' @ drop n h \<noteq> []"
    by (simp add: lit_sha256)
  ultimately show ?thesis
    using assms by (simp add: verify_nonempty compare_digest_def is_ascii_hexdigest)
qed

text \<open>
  C6 (signature comparison semantics) at a failing input: the secret \<open>k\<close>, an empty body,
  and the header \<open>sha256=\<close> followed by the 64 digits of the expected digest with a second
  \<open>sha256=\<close> put after the 32nd digit. The source removes both occurrences and accepts
  the header; with only the leading prefix removed, as the claim says, the rest is 71
  characters long and differs from the digest.
\<close>

theorem embedded_prefix_accepted:
  "verify_signature (config_with (lit ''k'') []) []
     (lit ''sha256='' @ take 32 (hexdigest (hmac_sha256 [107] [])) @ lit ''sha256='' @
      drop 32 (hexdigest (hmac_sha256 [107] []))) = Inr True \<and>
   compare_digest (hexdigest (hmac_sha256 [107] []))
     (strip_leading_prefix
        (lit ''sha256='' @ take 32 (hexdigest (hmac_sha256 [107] [])) @ lit ''sha256='' @
         drop 32 (hexdigest (hmac_sha256 [107] [])))) = Inr False"
proof -
  let ?h = "hexdigest (hmac_sha256 [107] [])"
  have enc: "encode_utf8 (webhook_secret (config_with (lit ''k'') [])) = Inr [107]"
    by (simp add: config_with_def lit_def utf8_char_def bnd_def)
  have ne: "webhook_secret (config_with (lit ''k'') []) \<noteq> []"
    by (simp add: config_with_def lit_def)
  have accepted: "verify_signature (config_with (lit ''k'') []) []
      (lit ''sha256='' @ take 32 ?h @ lit ''sha256='' @ drop 32 ?h) = Inr True"
    using verify_embedded_prefix [OF ne enc refl] .
  have stripped: "strip_leading_prefix
      (lit ''sha256='' @ take 32 ?h @ lit ''sha256='' @ drop 32 ?h) =
      take 32 ?h @ lit ''sha256='' @ drop 32 ?h"
    by (simp add: strip_leading_prefix_def startswith_def lit_sha256)
  have "length (take 32 ?h @ lit ''sha256='' @ drop 32 ?h) = length ?h + 7"
    by (simp add: lit_sha256)
  then have differs: "?h \<noteq> take 32 ?h @ lit ''sha256='' @ drop 32 ?h"
    by (metis add_cancel_right_right zero_neq_numeral)
  have "is_ascii (take 32 ?h @ lit ''sha256='' @ drop 32 ?h)"
    using is_ascii_hexdigest [of "hmac_sha256 [107] []"]
    by (auto simp: is_ascii_def list_all_iff lit_sha256 dest: in_set_takeD in_set_dropD)
  with differs have "compare_digest ?h (take 32 ?h @ lit ''sha256='' @ drop 32 ?h) = Inr False"
    by (simp add: compare_digest_def is_ascii_hexdigest)
  with accepted stripped show ?thesis by simp
qed

text \<open>
  C8 (missing signature rejection): when a secret is configured and the signature header
  is empty, the check returns \<open>False\<close> and the endpoint answers 403 with the error body
  \<open>Invalid signature\<close>, without calling \<open>json.loads\<close> (the trace of calls is empty,
  whatever the parser would do with the body).
\<close>

theorem missing_signature_rejected:
  "webhook_secret cfg \<noteq> [] \<Longrightarrow>
   verify_signature cfg payload [] = Inr False \<and>
   handle_webhook cfg loads rp payload [] event_type =
     \<lparr>status = 403, body = (lit ''error'', lit ''Invalid signature''), trace = []\<rparr>"
  by (simp add: verify_signature_def handle_webhook_def)

theorem missing_signature_rejected_witness:
  "webhook_secret (config_with (lit ''k'') []) \<noteq> [] \<and>
   verify_signature (config_with (lit ''k'') []) (bytes_lit ''{}'') [] = Inr False \<and>
   handle_webhook (config_with (lit ''k'') []) (\<lambda>b. Inr (JDict [])) (\<lambda>v. [])
       (bytes_lit ''{}'') [] (lit ''push'') =
     \<lparr>status = 403, body = (lit ''error'', lit ''Invalid signature''), trace = []\<rparr>"
proof -
  have ne: "webhook_secret (config_with (lit ''k'') []) \<noteq> []"
    by (simp add: config_with_def lit_def)
  show ?thesis
    using missing_signature_rejected [OF ne] ne by simp
qed

text \<open>
  C9 (empty secret bypass): with an empty (unset) webhook secret, the signature check
  returns \<open>True\<close> for every body and every signature header, the empty header included.
\<close>

theorem verify_signature_empty_secret:
  "verify_signature (cfg\<lparr>webhook_secret := []\<rparr>) payload signature = Inr True"
  by (simp add: verify_signature_def)

section \<open>Properties of the dispatch and of the endpoint\<close>

lemma catch_cases: "catch (Inl e) = Inr []" "catch (Inr m) = Inr m"
  by (simp_all add: catch_def)

lemma catch_returns: "\<exists>m. catch x = Inr m"
  by (cases x) (simp_all add: catch_def)

lemma process_event_returns: "\<exists>m. process_event rp event_type data = Inr m"
  unfolding process_event_def by (rule catch_returns)

lemma event_type_distinct:
  "lit ''pull_request'' \<noteq> lit ''push''" "lit ''issues'' \<noteq> lit ''push''"
  "lit ''star'' \<noteq> lit ''push''" "lit ''fork'' \<noteq> lit ''push''" "lit ''release'' \<noteq> lit ''push''"
  "lit ''issues'' \<noteq> lit ''pull_request''" "lit ''star'' \<noteq> lit ''pull_request''"
  "lit ''fork'' \<noteq> lit ''pull_request''" "lit ''release'' \<noteq> lit ''pull_request''"
  "lit ''star'' \<noteq> lit ''issues''" "lit ''fork'' \<noteq> lit ''issues''"
  "lit ''release'' \<noteq> lit ''issues''" "lit ''fork'' \<noteq> lit ''star''"
  "lit ''release'' \<noteq> lit ''star''" "lit ''release'' \<noteq> lit ''fork''"
  by (simp_all add: lit_def)

text \<open>
  C7 (classification totality): for every event type and every parsed payload,
  \<open>_process_event\<close> returns a message and raises nothing; and when the body of the
  method chosen for a known event type raises \<open>e\<close> while it extracts fields, the
  result is the empty message.
\<close>

theorem process_event_never_raises:
  "(\<exists>m. process_event rp event_type data = Inr m) \<and>
   (push_body rp data = Inl e \<longrightarrow> process_event rp (lit ''push'') data = Inr []) \<and>
   (pull_request_body rp data = Inl e \<longrightarrow>
      process_event rp (lit ''pull_request'') data = Inr []) \<and>
   (issues_body rp data = Inl e \<longrightarrow> process_event rp (lit ''issues'') data = Inr []) \<and>
   (star_body rp data = Inl e \<longrightarrow> process_event rp (lit ''star'') data = Inr []) \<and>
   (fork_body rp data = Inl e \<longrightarrow> process_event rp (lit ''fork'') data = Inr []) \<and>
   (release_body rp data = Inl e \<longrightarrow> process_event rp (lit ''release'') data = Inr [])"
  using process_event_returns [of rp event_type data]
  by (simp add: process_event_def process_event_body_def event_type_distinct catch_cases
      process_push_event_def process_pull_request_event_def process_issues_event_def
      process_star_event_def process_fork_event_def process_release_event_def)

text \<open>The payload \<open>null\<close> has no \<open>get\<close>: every method raises at its first line.\<close>

theorem process_event_never_raises_witness:
  "push_body (\<lambda>v. []) JNull = Inl AttributeError \<and>
   pull_request_body (\<lambda>v. []) JNull = Inl AttributeError \<and>
   issues_body (\<lambda>v. []) JNull = Inl AttributeError \<and>
   star_body (\<lambda>v. []) JNull = Inl AttributeError \<and>
   fork_body (\<lambda>v. []) JNull = Inl AttributeError \<and>
   release_body (\<lambda>v. []) JNull = Inl AttributeError \<and>
   process_event (\<lambda>v. []) (lit ''push'') JNull = Inr [] \<and>
   process_event (\<lambda>v. []) (lit ''pull_request'') JNull = Inr [] \<and>
   process_event (\<lambda>v. []) (lit ''issues'') JNull = Inr [] \<and>
   process_event (\<lambda>v. []) (lit ''star'') JNull = Inr [] \<and>
   process_event (\<lambda>v. []) (lit ''fork'') JNull = Inr [] \<and>
   process_event (\<lambda>v. []) (lit ''release'') JNull = Inr []"
proof -
  have raised:
    "push_body (\<lambda>v. []) JNull = Inl AttributeError"
    "pull_request_body (\<lambda>v. []) JNull = Inl AttributeError"
    "issues_body (\<lambda>v. []) JNull = Inl AttributeError"
    "star_body (\<lambda>v. []) JNull = Inl AttributeError"
    "fork_body (\<lambda>v. []) JNull = Inl AttributeError"
    "release_body (\<lambda>v. []) JNull = Inl AttributeError"
    by (simp_all add: push_body_def pull_request_body_def issues_body_def star_body_def
        fork_body_def release_body_def py_get_def bnd_def)
  show ?thesis
    using process_event_never_raises [of "\<lambda>v. []" "lit ''push''" JNull AttributeError] raised
    by simp
qed

lemma str_nat_digit: "n < 10 \<Longrightarrow> str_nat n = [48 + n]"
  by (simp add: str_nat.simps)

lemma star_data_message: "process_event rp (lit ''star'') star_data = Inr star_message"
  by (simp add: process_event_def process_event_body_def process_star_event_def star_body_def
      star_data_def star_message_def py_get_def dict_get_def bnd_def catch_def py_str_def str_int_def
      str_nat_digit lit_def)

lemma secret_k:
  "webhook_secret (config_with (lit ''k'') admin) \<noteq> []"
  "encode_utf8 (webhook_secret (config_with (lit ''k'') admin)) = Inr [107]"
  by (simp_all add: config_with_def lit_def utf8_char_def bnd_def)

lemma signed_with_k:
  "verify_signature (config_with (lit ''k'') admin) payload
     (lit ''sha256='' @ hexdigest (hmac_sha256 [107] payload)) = Inr True"
  using verify_prefixed_digest [OF secret_k, of admin payload payload] by simp

text \<open>
  C3 (endpoint status policy), as amended: for every request that passes the signature
  check and whose body parses as JSON, the endpoint answers 200 with the success body,
  whether or not a notification was built or handed over. An error raised while the
  event is classified or formatted is caught inside \<open>_process_event\<close> and gives the
  empty message, so it does not change the answer.
\<close>

theorem parsed_request_status_200:
  assumes "verify_signature cfg payload signature = Inr True"
    and "loads payload = Inr data"
  shows "status (handle_webhook cfg loads rp payload signature event_type) = 200 \<and>
         body (handle_webhook cfg loads rp payload signature event_type) =
           (lit ''status'', lit ''success'')"
proof -
  obtain m where "process_event rp event_type data = Inr m"
    using process_event_returns by blast
  with assms show ?thesis by (simp add: handle_webhook_def)
qed

text \<open>A \<open>star\<close> delivery signed with the secret \<open>k\<close>.\<close>

theorem parsed_request_status_200_witness:
  "verify_signature (config_with (lit ''k'') []) star_request_body
     (lit ''sha256='' @ hexdigest (hmac_sha256 [107] star_request_body)) = Inr True \<and>
   status (handle_webhook (config_with (lit ''k'') []) (\<lambda>b. Inr star_data) (\<lambda>v. [])
     star_request_body (lit ''sha256='' @ hexdigest (hmac_sha256 [107] star_request_body))
     (lit ''star'')) = 200 \<and>
   body (handle_webhook (config_with (lit ''k'') []) (\<lambda>b. Inr star_data) (\<lambda>v. [])
     star_request_body (lit ''sha256='' @ hexdigest (hmac_sha256 [107] star_request_body))
     (lit ''star'')) = (lit ''status'', lit ''success'')"
  using parsed_request_status_200 [where cfg = "config_with (lit ''k'') []"
      and payload = star_request_body and loads = "\<lambda>b. Inr star_data" and data = star_data
      and signature = "lit ''sha256='' @ hexdigest (hmac_sha256 [107] star_request_body)"
      and rp = "\<lambda>v. []" and event_type = "lit ''star''"]
    signed_with_k [of "[]" star_request_body]
  by simp

text \<open>
  C3 as stated fails: for the \<open>push\<close> body \<open>{"commits": 5}\<close> the classification raises
  \<open>TypeError\<close> at \<open>len(commits)\<close>, and the endpoint answers 200, not 500.
\<close>

theorem classification_error_still_200:
  "push_body (\<lambda>v. []) (JDict [(lit ''commits'', JInt 5)]) = Inl TypeError \<and>
   status (handle_webhook (config_with [] []) (\<lambda>b. Inr (JDict [(lit ''commits'', JInt 5)]))
             (\<lambda>v. []) (bytes_lit ''{\"commits\": 5}'') [] (lit ''push'')) = 200"
  by (simp add: push_body_def py_get_def dict_get_def bnd_def lit_def truthy_def py_len_def py_startswith_def
      startswith_def handle_webhook_def verify_signature_def config_with_def process_event_def
      process_event_body_def process_push_event_def catch_def)

text \<open>
  C10 (administrator id gates the delivery): for every request that passes the
  signature check and whose body parses as JSON, the endpoint answers 200, and after
  \<open>json.loads\<close> it calls \<open>_send_notification\<close> with the message exactly when the message
  is not empty and \<open>bot_admin_id\<close> is not empty; otherwise it makes no further call.
\<close>

theorem notification_gated_by_admin_id:
  assumes "verify_signature cfg payload signature = Inr True"
    and "loads payload = Inr data"
  shows "\<exists>m. process_event rp event_type data = Inr m \<and>
           status (handle_webhook cfg loads rp payload signature event_type) = 200 \<and>
           trace (handle_webhook cfg loads rp payload signature event_type) =
             JsonLoads # (if m \<noteq> [] \<and> bot_admin_id cfg \<noteq> [] then [SendNotification m] else [])"
proof -
  obtain m where "process_event rp event_type data = Inr m"
    using process_event_returns by blast
  with assms show ?thesis by (simp add: handle_webhook_def)
qed

lemma star_message_nonempty: "star_message \<noteq> []"
  by (simp add: star_message_def)

text \<open>
  The same \<open>star\<close> delivery with the administrator id \<open>42\<close>, then with no
  administrator id: the message is handed over in the first case only.
\<close>

theorem notification_gated_by_admin_id_witness:
  "trace (handle_webhook (config_with (lit ''k'') (lit ''42'')) (\<lambda>b. Inr star_data) (\<lambda>v. [])
     star_request_body (lit ''sha256='' @ hexdigest (hmac_sha256 [107] star_request_body))
     (lit ''star'')) = [JsonLoads, SendNotification star_message] \<and>
   trace (handle_webhook (config_with (lit ''k'') []) (\<lambda>b. Inr star_data) (\<lambda>v. [])
     star_request_body (lit ''sha256='' @ hexdigest (hmac_sha256 [107] star_request_body))
     (lit ''star'')) = [JsonLoads] \<and>
   status (handle_webhook (config_with (lit ''k'') []) (\<lambda>b. Inr star_data) (\<lambda>v. [])
     star_request_body (lit ''sha256='' @ hexdigest (hmac_sha256 [107] star_request_body))
     (lit ''star'')) = 200"
proof -
  have admin: "bot_admin_id (config_with (lit ''k'') (lit ''42'')) \<noteq> []"
    "bot_admin_id (config_with (lit ''k'') []) = []"
    by (simp_all add: config_with_def lit_def)
  show ?thesis
    using notification_gated_by_admin_id [where cfg = "config_with (lit ''k'') (lit ''42'')"
        and payload = star_request_body and loads = "\<lambda>b. Inr star_data" and data = star_data
        and signature = "lit ''sha256='' @ hexdigest (hmac_sha256 [107] star_request_body)"
        and rp = "\<lambda>v. []" and event_type = "lit ''star''"]
      notification_gated_by_admin_id [where cfg = "config_with (lit ''k'') []"
        and payload = star_request_body and loads = "\<lambda>b. Inr star_data" and data = star_data
        and signature = "lit ''sha256='' @ hexdigest (hmac_sha256 [107] star_request_body)"
        and rp = "\<lambda>v. []" and event_type = "lit ''star''"]
      signed_with_k [of "lit ''42''" star_request_body] signed_with_k [of "[]" star_request_body]
      admin star_message_nonempty
    by (simp add: star_data_message)
qed

section \<open>Properties of the formatted messages\<close>

lemma py_get_dict [simp]: "py_get (JDict kvs) k d = Inr (dict_get kvs k d)"
  by (simp add: py_get_def)

lemma bnd_simps [simp]: "bnd (Inr v) f = f v" "bnd (Inl e) f = Inl e"
  by (simp_all add: bnd_def)

lemma commit_entry_dict:
  assumes "dict_get kvs (lit ''author'') (JDict []) = JDict author"
    and "py_slice 7 (dict_get kvs (lit ''id'') (JStr [])) = Inr commit_id"
  shows "commit_entry rp (JDict kvs) = Inr (concat
       [[0x1F538], lit '' **'',
        py_str rp (dict_get kvs (lit ''message'') (JStr (lit ''No message''))), lit ''**'', [10],
        [0x1F464], lit '' '',
        py_str rp (dict_get author (lit ''name'') (JStr (lit ''Unknown''))),
        lit '' '', [0x2022], lit '' `'', py_str rp commit_id, lit ''`'', [10, 10]])"
  using assms by (simp add: commit_entry_def)

lemma commit_ok_entry: "commit_ok c \<Longrightarrow> commit_entry rp c = Inr (entry_of rp c)"
  by (auto simp: commit_ok_def is_dict_def sliceable_def entry_of_def commit_entry_def
      py_slice_def split: json.splits)

lemma commit_entries_ok:
  "list_all commit_ok cs \<Longrightarrow> commit_entries rp cs = Inr (concat (map (entry_of rp) cs))"
  by (induction cs) (simp_all add: commit_ok_entry)

lemma push_body_dict:
  assumes "dict_get kvs (lit ''repository'') (JDict []) = JDict repo"
    and "dict_get kvs (lit ''pusher'') (JDict []) = JDict pusher"
    and "dict_get kvs (lit ''ref'') (JStr []) = JStr r"
    and "dict_get kvs (lit ''commits'') (JList []) = JList cs"
    and "cs \<noteq> []"
    and "commit_entries rp (take 3 cs) = Inr entries"
  shows "push_body rp (JDict kvs) = Inr (concat
       [[0x1F4DD], lit '' **New '', (if length cs = 1 then lit ''commit'' else lit ''commits''),
        lit '' to '', py_str rp (dict_get repo (lit ''full_name'') (JStr (lit ''Unknown''))),
        lit ''**'', [10, 10],
        [0x1F33F], lit '' Branch: `'',
        (if startswith r (lit ''refs/heads/'') then py_replace (lit ''refs/heads/'') [] r else r),
        lit ''`'', [10],
        [0x1F464], lit '' Pusher: '',
        py_str rp (dict_get pusher (lit ''name'') (JStr (lit ''Unknown''))), [10],
        [0x1F4CA], lit '' '', str_nat (length cs), lit '' '',
        (if length cs = 1 then lit ''commit'' else lit ''commits''), [10, 10],
        entries,
        (if length cs > 3
         then concat [lit ''... and '', str_nat (length cs - 3), lit '' more commits'', [10, 10]]
         else []),
        [0x1F517], lit '' [View Repository]('',
        py_str rp (dict_get repo (lit ''html_url'') (JStr [])), lit '')''])"
  using assms
  by (simp add: push_body_def py_startswith_def truthy_def py_len_def py_slice_def py_iter_def
      Let_def)


lemma process_push_event_dict:
  assumes "dict_get kvs (lit ''repository'') (JDict []) = JDict repo"
    and "dict_get kvs (lit ''pusher'') (JDict []) = JDict pusher"
    and "dict_get kvs (lit ''ref'') (JStr []) = JStr r"
    and "dict_get kvs (lit ''commits'') (JList []) = JList cs"
    and "cs \<noteq> []"
    and "commit_entries rp (take 3 cs) = Inr entries"
  shows "process_push_event rp (JDict kvs) = push_body rp (JDict kvs)"
  unfolding process_push_event_def push_body_dict [OF assms] by (simp add: catch_def)

text \<open>
  C5 (push commit cap): for every push payload whose repository and pusher are objects
  (or absent), whose ref is a string (or absent) and whose commit list is not empty,
  with the first three commits renderable, the message is the header, then the entries
  of the first \<open>min n 3\<close> commits in payload order and nothing else between, then for
  \<open>n > 3\<close> the trailer \<open>... and n-3 more commits\<close>, then the link. The header says
  \<open>commit\<close> when \<open>n = 1\<close> and \<open>commits\<close> otherwise.
\<close>

theorem push_commit_cap:
  assumes "dict_get kvs (lit ''repository'') (JDict []) = JDict repo"
    and "dict_get kvs (lit ''pusher'') (JDict []) = JDict pusher"
    and "dict_get kvs (lit ''ref'') (JStr []) = JStr r"
    and "dict_get kvs (lit ''commits'') (JList []) = JList cs"
    and "cs \<noteq> []"
    and "list_all commit_ok (take 3 cs)"
  shows "process_push_event rp (JDict kvs) = Inr (concat
       [[0x1F4DD], lit '' **New '', (if length cs = 1 then lit ''commit'' else lit ''commits''),
        lit '' to '', py_str rp (dict_get repo (lit ''full_name'') (JStr (lit ''Unknown''))),
        lit ''**'', [10, 10],
        [0x1F33F], lit '' Branch: `'',
        (if startswith r (lit ''refs/heads/'') then py_replace (lit ''refs/heads/'') [] r else r),
        lit ''`'', [10],
        [0x1F464], lit '' Pusher: '',
        py_str rp (dict_get pusher (lit ''name'') (JStr (lit ''Unknown''))), [10],
        [0x1F4CA], lit '' '', str_nat (length cs), lit '' '',
        (if length cs = 1 then lit ''commit'' else lit ''commits''), [10, 10],
        concat (map (entry_of rp) (take 3 cs)),
        (if length cs > 3
         then concat [lit ''... and '', str_nat (length cs - 3), lit '' more commits'', [10, 10]]
         else []),
        [0x1F517], lit '' [View Repository]('',
        py_str rp (dict_get repo (lit ''html_url'') (JStr [])), lit '')'']) \<and>
     length (map (entry_of rp) (take 3 cs)) = min (length cs) 3"
proof -
  have entries: "commit_entries rp (take 3 cs) = Inr (concat (map (entry_of rp) (take 3 cs)))"
    using assms(6) by (rule commit_entries_ok)
  show ?thesis
    unfolding process_push_event_dict [OF assms(1-5) entries]
      push_body_dict [OF assms(1-5) entries]
    by (simp add: min.commute)
qed

lemma str_nat_small:
  "str_nat (Suc (Suc (Suc (Suc (Suc 0))))) = [53]" "str_nat (Suc (Suc 0)) = [50]"
  by (simp_all add: str_nat_digit)

lemma example_commit_ok: "commit_ok (example_commit m)"
  by (simp add: commit_ok_def example_commit_def dict_get_def is_dict_def sliceable_def lit_def)

lemma example_commit_entry:
  "entry_of rp (example_commit m) = concat
     [[0x1F538], lit '' **'', lit m, lit ''**'', [10],
      [0x1F464], lit '' n '', [0x2022], lit '' `0123456`'', [10, 10]]"
  by (simp add: entry_of_def commit_entry_def example_commit_def dict_get_def py_slice_def
      py_str_def lit_def)

text \<open>Five commits: three entries, then \<open>... and 2 more commits\<close>.\<close>

theorem push_commit_cap_witness:
  "process_push_event (\<lambda>v. []) push5_data = Inr (concat
     [[0x1F4DD], lit '' **New commits to a/b**'', [10, 10],
      [0x1F33F], lit '' Branch: `main`'', [10],
      [0x1F464], lit '' Pusher: u'', [10],
      [0x1F4CA], lit '' 5 commits'', [10, 10],
      [0x1F538], lit '' **m1**'', [10], [0x1F464], lit '' n '', [0x2022], lit '' `0123456`'', [10, 10],
      [0x1F538], lit '' **m2**'', [10], [0x1F464], lit '' n '', [0x2022], lit '' `0123456`'', [10, 10],
      [0x1F538], lit '' **m3**'', [10], [0x1F464], lit '' n '', [0x2022], lit '' `0123456`'', [10, 10],
      lit ''... and 2 more commits'', [10, 10],
      [0x1F517], lit '' [View Repository](https://x)''])"
proof -
  let ?cs = "[example_commit ''m1'', example_commit ''m2'', example_commit ''m3'',
              example_commit ''m4'', example_commit ''m5'']"
  let ?kvs = "[(lit ''ref'', JStr (lit ''refs/heads/main'')),
      (lit ''repository'', JDict [(lit ''full_name'', JStr (lit ''a/b'')),
                                 (lit ''html_url'', JStr (lit ''https://x''))]),
      (lit ''pusher'', JDict [(lit ''name'', JStr (lit ''u''))]),
      (lit ''commits'', JList ?cs)]"
  have h1: "dict_get ?kvs (lit ''repository'') (JDict []) =
      JDict [(lit ''full_name'', JStr (lit ''a/b'')), (lit ''html_url'', JStr (lit ''https://x''))]"
    and h2: "dict_get ?kvs (lit ''pusher'') (JDict []) = JDict [(lit ''name'', JStr (lit ''u''))]"
    and h3: "dict_get ?kvs (lit ''ref'') (JStr []) = JStr (lit ''refs/heads/main'')"
    and h4: "dict_get ?kvs (lit ''commits'') (JList []) = JList ?cs"
    by (simp_all add: dict_get_def lit_def)
  have h5: "?cs \<noteq> []" by simp
  have h6: "list_all commit_ok (take 3 ?cs)"
    by (simp add: example_commit_ok)
  show ?thesis
    using push_commit_cap [OF h1 h2 h3 h4 h5 h6, of "\<lambda>v. []"]
    by (simp add: push5_data_def dict_get_def startswith_def example_commit_entry
        str_nat_small py_str_def lit_def)
qed


lemma pull_request_body_dict:
  assumes "dict_get kvs (lit ''action'') (JStr []) = JStr a"
    and "a \<in> set [lit ''opened'', lit ''closed'', lit ''merged'']"
    and "dict_get kvs (lit ''pull_request'') (JDict []) = JDict pr"
    and "dict_get kvs (lit ''repository'') (JDict []) = JDict repo"
    and "dict_get pr (lit ''user'') (JDict []) = JDict user"
  shows "pull_request_body rp (JDict kvs) = Inr (concat
       [(if a = lit ''opened'' then [0x1F7E2] else if a = lit ''closed'' then [0x1F534]
         else [0x1F7E3]),
        lit '' **Pull Request '', title_from False a, lit ''**'', [10, 10],
        [0x1F4E6], lit '' Repository: '',
        py_str rp (dict_get repo (lit ''full_name'') (JStr (lit ''Unknown''))), [10],
        [0x1F527], lit '' PR #'', py_str rp (dict_get pr (lit ''number'') (JInt 0)), lit '': '',
        py_str rp (dict_get pr (lit ''title'') (JStr (lit ''No title''))), [10],
        [0x1F464], lit '' Author: '',
        py_str rp (dict_get user (lit ''login'') (JStr (lit ''Unknown''))), [10, 10],
        [0x1F517], lit '' [View Pull Request]('',
        py_str rp (dict_get pr (lit ''html_url'') (JStr [])), lit '')''])"
  using assms
  by (auto simp: pull_request_body_def py_in_def table_get_def
      py_title_def lit_def)

lemma issues_body_dict:
  assumes "dict_get kvs (lit ''action'') (JStr []) = JStr a"
    and "a \<in> set [lit ''opened'', lit ''closed'', lit ''reopened'']"
    and "dict_get kvs (lit ''issue'') (JDict []) = JDict issue"
    and "dict_get kvs (lit ''repository'') (JDict []) = JDict repo"
    and "dict_get issue (lit ''user'') (JDict []) = JDict user"
  shows "issues_body rp (JDict kvs) = Inr (concat
       [(if a = lit ''opened'' then [0x1F7E2] else if a = lit ''closed'' then [0x1F534]
         else [0x1F7E1]),
        lit '' **Issue '', title_from False a, lit ''**'', [10, 10],
        [0x1F4E6], lit '' Repository: '',
        py_str rp (dict_get repo (lit ''full_name'') (JStr (lit ''Unknown''))), [10],
        [0x1F41B], lit '' Issue #'', py_str rp (dict_get issue (lit ''number'') (JInt 0)),
        lit '': '', py_str rp (dict_get issue (lit ''title'') (JStr (lit ''No title''))), [10],
        [0x1F464], lit '' Author: '',
        py_str rp (dict_get user (lit ''login'') (JStr (lit ''Unknown''))), [10, 10],
        [0x1F517], lit '' [View Issue]('',
        py_str rp (dict_get issue (lit ''html_url'') (JStr [])), lit '')''])"
  using assms
  by (auto simp: issues_body_def py_in_def table_get_def
      py_title_def lit_def)

lemma star_body_dict:
  assumes "dict_get kvs (lit ''action'') (JStr []) = JStr (lit ''created'')"
    and "dict_get kvs (lit ''repository'') (JDict []) = JDict repo"
    and "dict_get kvs (lit ''sender'') (JDict []) = JDict sender"
  shows "star_body rp (JDict kvs) = Inr (concat
       [[0x2B50], lit '' **New Star!**'', [10, 10],
        [0x1F4E6], lit '' Repository: '',
        py_str rp (dict_get repo (lit ''full_name'') (JStr (lit ''Unknown''))), [10],
        [0x1F464], lit '' Starred by: '',
        py_str rp (dict_get sender (lit ''login'') (JStr (lit ''Unknown''))), [10],
        [0x1F4CA], lit '' Total stars: '',
        py_str rp (dict_get repo (lit ''stargazers_count'') (JInt 0)), [10, 10],
        [0x1F517], lit '' [View Repository]('',
        py_str rp (dict_get repo (lit ''html_url'') (JStr [])), lit '')''])"
  using assms by (simp add: star_body_def)

lemma fork_body_dict:
  assumes "dict_get kvs (lit ''repository'') (JDict []) = JDict repo"
    and "dict_get kvs (lit ''forkee'') (JDict []) = JDict forkee"
    and "dict_get kvs (lit ''sender'') (JDict []) = JDict sender"
  shows "fork_body rp (JDict kvs) = Inr (concat
       [[0x1F374], lit '' **New Fork!**'', [10, 10],
        [0x1F4E6], lit '' Repository: '',
        py_str rp (dict_get repo (lit ''full_name'') (JStr (lit ''Unknown''))), [10],
        [0x1F464], lit '' Forked by: '',
        py_str rp (dict_get sender (lit ''login'') (JStr (lit ''Unknown''))), [10],
        [0x1F4CA], lit '' Total forks: '',
        py_str rp (dict_get repo (lit ''forks_count'') (JInt 0)), [10, 10],
        [0x1F517], lit '' [View Fork]('',
        py_str rp (dict_get forkee (lit ''html_url'') (JStr [])), lit '')''])"
  using assms by (simp add: fork_body_def)

lemma release_body_dict:
  assumes "dict_get kvs (lit ''action'') (JStr []) = JStr (lit ''published'')"
    and "dict_get kvs (lit ''release'') (JDict []) = JDict release"
    and "dict_get kvs (lit ''repository'') (JDict []) = JDict repo"
    and "dict_get release (lit ''author'') (JDict []) = JDict author"
  shows "release_body rp (JDict kvs) = Inr (concat
       [[0x1F680], lit '' **New Release!**'', [10, 10],
        [0x1F4E6], lit '' Repository: '',
        py_str rp (dict_get repo (lit ''full_name'') (JStr (lit ''Unknown''))), [10],
        [0x1F3F7, 0xFE0F], lit '' Release: '',
        py_str rp (dict_get release (lit ''name'')
                     (dict_get release (lit ''tag_name'') (JStr (lit ''Unknown'')))),
        lit '' ('', py_str rp (dict_get release (lit ''tag_name'') (JStr (lit ''Unknown''))),
        lit '')'', [10],
        [0x1F464], lit '' Author: '',
        py_str rp (dict_get author (lit ''login'') (JStr (lit ''Unknown''))), [10, 10],
        [0x1F517], lit '' [View Release]('',
        py_str rp (dict_get release (lit ''html_url'') (JStr [])), lit '')''])"
  using assms by (simp add: release_body_def)

text \<open>
  C2 (untrusted-text escaping) at a failing input: an opened pull request with the title
  \<open>a*b\<close> by the user \<open>u_1\<close>. The message embeds both texts as they are, where
  \<open>escape_markdown\<close> puts a backslash (code point 92) before \<open>*\<close> and before
  \<open>_\<close>. The command handlers of
  \<open>telegram_bot.py\<close> pass titles, messages and user names through \<open>escape_markdown\<close>;
  the webhook formatters never call it.
\<close>

theorem pull_request_text_not_escaped:
  "process_pull_request_event rp pr_data = Inr (concat
     [[0x1F7E2], lit '' **Pull Request Opened**'', [10, 10],
      [0x1F4E6], lit '' Repository: a/b'', [10],
      [0x1F527], lit '' PR #42: '', lit ''a*b'', [10],
      [0x1F464], lit '' Author: '', lit ''u_1'', [10, 10],
      [0x1F517], lit '' [View Pull Request](https://x)'']) \<and>
   escape_markdown (lit ''a*b'') = [97, 92, 42, 98] \<and>
   escape_markdown (lit ''u_1'') = [117, 92, 95, 49]"
  by (simp add: process_pull_request_event_def pull_request_body_def pr_data_def dict_get_def
      py_in_def table_get_def py_title_def py_str_def str_int_def str_nat.simps catch_def
      escape_chars_def lit_def)

text \<open>
  C4 as stated fails twice. In an opened pull request with no other field, the absent
  title becomes \<open>No title\<close>, the absent number \<open>0\<close> and the absent link the empty
  string; only the repository name and the author become \<open>Unknown\<close>. And in a published
  release whose \<open>tag_name\<close> is null and whose \<open>name\<close> is absent, the absent name takes
  the value of the tag, so that null reaches the formatter and is printed as \<open>None\<close>.
\<close>

theorem absent_title_is_not_unknown:
  "process_pull_request_event (\<lambda>v. []) (JDict [(lit ''action'', JStr (lit ''opened''))]) =
   Inr (concat
     [[0x1F7E2], lit '' **Pull Request Opened**'', [10, 10],
      [0x1F4E6], lit '' Repository: Unknown'', [10],
      [0x1F527], lit '' PR #0: No title'', [10],
      [0x1F464], lit '' Author: Unknown'', [10, 10],
      [0x1F517], lit '' [View Pull Request]()'']) \<and>
   process_release_event (\<lambda>v. [])
     (JDict [(lit ''action'', JStr (lit ''published'')),
             (lit ''release'', JDict [(lit ''tag_name'', JNull)])]) =
   Inr (concat
     [[0x1F680], lit '' **New Release!**'', [10, 10],
      [0x1F4E6], lit '' Repository: Unknown'', [10],
      [0x1F3F7, 0xFE0F], lit '' Release: None (None)'', [10],
      [0x1F464], lit '' Author: Unknown'', [10, 10],
      [0x1F517], lit '' [View Release]()''])"
  by (simp add: process_pull_request_event_def pull_request_body_def process_release_event_def
      release_body_def dict_get_def py_in_def table_get_def py_title_def py_str_def str_int_def
      str_nat.simps catch_def lit_def)

text \<open>
  C4 (missing-field defaulting), as amended. Every optional field is read with
  \<open>dict.get\<close> and a default of its own: a key that is absent gives the default, a key
  that is present gives its value, null included. For every known event type whose
  payload objects are objects (or absent), the message is built from these values, and
  the defaults are: \<open>Unknown\<close> for the repository name, the pusher, commit author,
  user, sender and author names and the tag name; \<open>No title\<close> for a title;
  \<open>No message\<close> for a commit message; \<open>0\<close> for a number or a count; the empty string
  for a link, a commit id and the ref; and, for the release name, the value read for the
  tag name (\<open>Unknown\<close> when the tag is absent too).
\<close>

theorem absent_fields_get_fixed_defaults:
  "(map_of akvs akey = None \<longrightarrow> dict_get akvs akey adflt = adflt) \<and>
   (map_of pkvs pkey = Some pval \<longrightarrow> dict_get pkvs pkey pdflt = pval) \<and>
   (dict_get ck (lit ''author'') (JDict []) = JDict cauthor \<and>
    py_slice 7 (dict_get ck (lit ''id'') (JStr [])) = Inr cid \<longrightarrow>
    commit_entry rp (JDict ck) = Inr (concat
       [[0x1F538], lit '' **'',
        py_str rp (dict_get ck (lit ''message'') (JStr (lit ''No message''))), lit ''**'', [10],
        [0x1F464], lit '' '',
        py_str rp (dict_get cauthor (lit ''name'') (JStr (lit ''Unknown''))),
        lit '' '', [0x2022], lit '' `'', py_str rp cid, lit ''`'', [10, 10]])) \<and>
   (dict_get hk (lit ''repository'') (JDict []) = JDict hrepo \<and>
    dict_get hk (lit ''pusher'') (JDict []) = JDict hpusher \<and>
    dict_get hk (lit ''ref'') (JStr []) = JStr r \<and>
    dict_get hk (lit ''commits'') (JList []) = JList cs \<and> cs \<noteq> [] \<and>
    commit_entries rp (take 3 cs) = Inr entries \<longrightarrow>
    process_push_event rp (JDict hk) = Inr (concat
       [[0x1F4DD], lit '' **New '', (if length cs = 1 then lit ''commit'' else lit ''commits''),
        lit '' to '', py_str rp (dict_get hrepo (lit ''full_name'') (JStr (lit ''Unknown''))),
        lit ''**'', [10, 10],
        [0x1F33F], lit '' Branch: `'',
        (if startswith r (lit ''refs/heads/'') then py_replace (lit ''refs/heads/'') [] r else r),
        lit ''`'', [10],
        [0x1F464], lit '' Pusher: '',
        py_str rp (dict_get hpusher (lit ''name'') (JStr (lit ''Unknown''))), [10],
        [0x1F4CA], lit '' '', str_nat (length cs), lit '' '',
        (if length cs = 1 then lit ''commit'' else lit ''commits''), [10, 10],
        entries,
        (if length cs > 3
         then concat [lit ''... and '', str_nat (length cs - 3), lit '' more commits'', [10, 10]]
         else []),
        [0x1F517], lit '' [View Repository]('',
        py_str rp (dict_get hrepo (lit ''html_url'') (JStr [])), lit '')''])) \<and>
   (dict_get pk (lit ''action'') (JStr []) = JStr pa \<and>
    pa \<in> set [lit ''opened'', lit ''closed'', lit ''merged''] \<and>
    dict_get pk (lit ''pull_request'') (JDict []) = JDict pr \<and>
    dict_get pk (lit ''repository'') (JDict []) = JDict prepo \<and>
    dict_get pr (lit ''user'') (JDict []) = JDict puser \<longrightarrow>
    process_pull_request_event rp (JDict pk) = Inr (concat
       [(if pa = lit ''opened'' then [0x1F7E2] else if pa = lit ''closed'' then [0x1F534]
         else [0x1F7E3]),
        lit '' **Pull Request '', title_from False pa, lit ''**'', [10, 10],
        [0x1F4E6], lit '' Repository: '',
        py_str rp (dict_get prepo (lit ''full_name'') (JStr (lit ''Unknown''))), [10],
        [0x1F527], lit '' PR #'', py_str rp (dict_get pr (lit ''number'') (JInt 0)), lit '': '',
        py_str rp (dict_get pr (lit ''title'') (JStr (lit ''No title''))), [10],
        [0x1F464], lit '' Author: '',
        py_str rp (dict_get puser (lit ''login'') (JStr (lit ''Unknown''))), [10, 10],
        [0x1F517], lit '' [View Pull Request]('',
        py_str rp (dict_get pr (lit ''html_url'') (JStr [])), lit '')''])) \<and>
   (dict_get ik (lit ''action'') (JStr []) = JStr ia \<and>
    ia \<in> set [lit ''opened'', lit ''closed'', lit ''reopened''] \<and>
    dict_get ik (lit ''issue'') (JDict []) = JDict issue \<and>
    dict_get ik (lit ''repository'') (JDict []) = JDict irepo \<and>
    dict_get issue (lit ''user'') (JDict []) = JDict iuser \<longrightarrow>
    process_issues_event rp (JDict ik) = Inr (concat
       [(if ia = lit ''opened'' then [0x1F7E2] else if ia = lit ''closed'' then [0x1F534]
         else [0x1F7E1]),
        lit '' **Issue '', title_from False ia, lit ''**'', [10, 10],
        [0x1F4E6], lit '' Repository: '',
        py_str rp (dict_get irepo (lit ''full_name'') (JStr (lit ''Unknown''))), [10],
        [0x1F41B], lit '' Issue #'', py_str rp (dict_get issue (lit ''number'') (JInt 0)),
        lit '': '', py_str rp (dict_get issue (lit ''title'') (JStr (lit ''No title''))), [10],
        [0x1F464], lit '' Author: '',
        py_str rp (dict_get iuser (lit ''login'') (JStr (lit ''Unknown''))), [10, 10],
        [0x1F517], lit '' [View Issue]('',
        py_str rp (dict_get issue (lit ''html_url'') (JStr [])), lit '')''])) \<and>
   (dict_get sk (lit ''action'') (JStr []) = JStr (lit ''created'') \<and>
    dict_get sk (lit ''repository'') (JDict []) = JDict srepo \<and>
    dict_get sk (lit ''sender'') (JDict []) = JDict ssender \<longrightarrow>
    process_star_event rp (JDict sk) = Inr (concat
       [[0x2B50], lit '' **New Star!**'', [10, 10],
        [0x1F4E6], lit '' Repository: '',
        py_str rp (dict_get srepo (lit ''full_name'') (JStr (lit ''Unknown''))), [10],
        [0x1F464], lit '' Starred by: '',
        py_str rp (dict_get ssender (lit ''login'') (JStr (lit ''Unknown''))), [10],
        [0x1F4CA], lit '' Total stars: '',
        py_str rp (dict_get srepo (lit ''stargazers_count'') (JInt 0)), [10, 10],
        [0x1F517], lit '' [View Repository]('',
        py_str rp (dict_get srepo (lit ''html_url'') (JStr [])), lit '')''])) \<and>
   (dict_get fk (lit ''repository'') (JDict []) = JDict frepo \<and>
    dict_get fk (lit ''forkee'') (JDict []) = JDict forkee \<and>
    dict_get fk (lit ''sender'') (JDict []) = JDict fsender \<longrightarrow>
    process_fork_event rp (JDict fk) = Inr (concat
       [[0x1F374], lit '' **New Fork!**'', [10, 10],
        [0x1F4E6], lit '' Repository: '',
        py_str rp (dict_get frepo (lit ''full_name'') (JStr (lit ''Unknown''))), [10],
        [0x1F464], lit '' Forked by: '',
        py_str rp (dict_get fsender (lit ''login'') (JStr (lit ''Unknown''))), [10],
        [0x1F4CA], lit '' Total forks: '',
        py_str rp (dict_get frepo (lit ''forks_count'') (JInt 0)), [10, 10],
        [0x1F517], lit '' [View Fork]('',
        py_str rp (dict_get forkee (lit ''html_url'') (JStr [])), lit '')''])) \<and>
   (dict_get rk (lit ''action'') (JStr []) = JStr (lit ''published'') \<and>
    dict_get rk (lit ''release'') (JDict []) = JDict release \<and>
    dict_get rk (lit ''repository'') (JDict []) = JDict rrepo \<and>
    dict_get release (lit ''author'') (JDict []) = JDict rauthor \<longrightarrow>
    process_release_event rp (JDict rk) = Inr (concat
       [[0x1F680], lit '' **New Release!**'', [10, 10],
        [0x1F4E6], lit '' Repository: '',
        py_str rp (dict_get rrepo (lit ''full_name'') (JStr (lit ''Unknown''))), [10],
        [0x1F3F7, 0xFE0F], lit '' Release: '',
        py_str rp (dict_get release (lit ''name'')
                     (dict_get release (lit ''tag_name'') (JStr (lit ''Unknown'')))),
        lit '' ('', py_str rp (dict_get release (lit ''tag_name'') (JStr (lit ''Unknown''))),
        lit '')'', [10],
        [0x1F464], lit '' Author: '',
        py_str rp (dict_get rauthor (lit ''login'') (JStr (lit ''Unknown''))), [10, 10],
        [0x1F517], lit '' [View Release]('',
        py_str rp (dict_get release (lit ''html_url'') (JStr [])), lit '')'']))"
proof (intro conjI impI; (elim conjE)?)
  assume "map_of akvs akey = None"
  then show "dict_get akvs akey adflt = adflt" by (simp add: dict_get_def)
next
  assume "map_of pkvs pkey = Some pval"
  then show "dict_get pkvs pkey pdflt = pval" by (simp add: dict_get_def)
next
  assume "dict_get ck (lit ''author'') (JDict []) = JDict cauthor"
    and "py_slice 7 (dict_get ck (lit ''id'') (JStr [])) = Inr cid"
  then show "commit_entry rp (JDict ck) = Inr (concat
       [[0x1F538], lit '' **'',
        py_str rp (dict_get ck (lit ''message'') (JStr (lit ''No message''))), lit ''**'', [10],
        [0x1F464], lit '' '',
        py_str rp (dict_get cauthor (lit ''name'') (JStr (lit ''Unknown''))),
        lit '' '', [0x2022], lit '' `'', py_str rp cid, lit ''`'', [10, 10]])"
    by (rule commit_entry_dict)
next
  assume h: "dict_get hk (lit ''repository'') (JDict []) = JDict hrepo"
    "dict_get hk (lit ''pusher'') (JDict []) = JDict hpusher"
    "dict_get hk (lit ''ref'') (JStr []) = JStr r"
    "dict_get hk (lit ''commits'') (JList []) = JList cs" "cs \<noteq> []"
    "commit_entries rp (take 3 cs) = Inr entries"
  show "process_push_event rp (JDict hk) = Inr (concat
       [[0x1F4DD], lit '' **New '', (if length cs = 1 then lit ''commit'' else lit ''commits''),
        lit '' to '', py_str rp (dict_get hrepo (lit ''full_name'') (JStr (lit ''Unknown''))),
        lit ''**'', [10, 10],
        [0x1F33F], lit '' Branch: `'',
        (if startswith r (lit ''refs/heads/'') then py_replace (lit ''refs/heads/'') [] r else r),
        lit ''`'', [10],
        [0x1F464], lit '' Pusher: '',
        py_str rp (dict_get hpusher (lit ''name'') (JStr (lit ''Unknown''))), [10],
        [0x1F4CA], lit '' '', str_nat (length cs), lit '' '',
        (if length cs = 1 then lit ''commit'' else lit ''commits''), [10, 10],
        entries,
        (if length cs > 3
         then concat [lit ''... and '', str_nat (length cs - 3), lit '' more commits'', [10, 10]]
         else []),
        [0x1F517], lit '' [View Repository]('',
        py_str rp (dict_get hrepo (lit ''html_url'') (JStr [])), lit '')''])"
    unfolding process_push_event_dict [OF h] by (rule push_body_dict [OF h])
next
  assume h: "dict_get pk (lit ''action'') (JStr []) = JStr pa"
    "pa \<in> set [lit ''opened'', lit ''closed'', lit ''merged'']"
    "dict_get pk (lit ''pull_request'') (JDict []) = JDict pr"
    "dict_get pk (lit ''repository'') (JDict []) = JDict prepo"
    "dict_get pr (lit ''user'') (JDict []) = JDict puser"
  show "process_pull_request_event rp (JDict pk) = Inr (concat
       [(if pa = lit ''opened'' then [0x1F7E2] else if pa = lit ''closed'' then [0x1F534]
         else [0x1F7E3]),
        lit '' **Pull Request '', title_from False pa, lit ''**'', [10, 10],
        [0x1F4E6], lit '' Repository: '',
        py_str rp (dict_get prepo (lit ''full_name'') (JStr (lit ''Unknown''))), [10],
        [0x1F527], lit '' PR #'', py_str rp (dict_get pr (lit ''number'') (JInt 0)), lit '': '',
        py_str rp (dict_get pr (lit ''title'') (JStr (lit ''No title''))), [10],
        [0x1F464], lit '' Author: '',
        py_str rp (dict_get puser (lit ''login'') (JStr (lit ''Unknown''))), [10, 10],
        [0x1F517], lit '' [View Pull Request]('',
        py_str rp (dict_get pr (lit ''html_url'') (JStr [])), lit '')''])"
    unfolding process_pull_request_event_def pull_request_body_dict [OF h]
    by (simp only: catch_cases)
next
  assume h: "dict_get ik (lit ''action'') (JStr []) = JStr ia"
    "ia \<in> set [lit ''opened'', lit ''closed'', lit ''reopened'']"
    "dict_get ik (lit ''issue'') (JDict []) = JDict issue"
    "dict_get ik (lit ''repository'') (JDict []) = JDict irepo"
    "dict_get issue (lit ''user'') (JDict []) = JDict iuser"
  show "process_issues_event rp (JDict ik) = Inr (concat
       [(if ia = lit ''opened'' then [0x1F7E2] else if ia = lit ''closed'' then [0x1F534]
         else [0x1F7E1]),
        lit '' **Issue '', title_from False ia, lit ''**'', [10, 10],
        [0x1F4E6], lit '' Repository: '',
        py_str rp (dict_get irepo (lit ''full_name'') (JStr (lit ''Unknown''))), [10],
        [0x1F41B], lit '' Issue #'', py_str rp (dict_get issue (lit ''number'') (JInt 0)),
        lit '': '', py_str rp (dict_get issue (lit ''title'') (JStr (lit ''No title''))), [10],
        [0x1F464], lit '' Author: '',
        py_str rp (dict_get iuser (lit ''login'') (JStr (lit ''Unknown''))), [10, 10],
        [0x1F517], lit '' [View Issue]('',
        py_str rp (dict_get issue (lit ''html_url'') (JStr [])), lit '')''])"
    unfolding process_issues_event_def issues_body_dict [OF h]
    by (simp only: catch_cases)
next
  assume h: "dict_get sk (lit ''action'') (JStr []) = JStr (lit ''created'')"
    "dict_get sk (lit ''repository'') (JDict []) = JDict srepo"
    "dict_get sk (lit ''sender'') (JDict []) = JDict ssender"
  show "process_star_event rp (JDict sk) = Inr (concat
       [[0x2B50], lit '' **New Star!**'', [10, 10],
        [0x1F4E6], lit '' Repository: '',
        py_str rp (dict_get srepo (lit ''full_name'') (JStr (lit ''Unknown''))), [10],
        [0x1F464], lit '' Starred by: '',
        py_str rp (dict_get ssender (lit ''login'') (JStr (lit ''Unknown''))), [10],
        [0x1F4CA], lit '' Total stars: '',
        py_str rp (dict_get srepo (lit ''stargazers_count'') (JInt 0)), [10, 10],
        [0x1F517], lit '' [View Repository]('',
        py_str rp (dict_get srepo (lit ''html_url'') (JStr [])), lit '')''])"
    unfolding process_star_event_def star_body_dict [OF h]
    by (simp only: catch_cases)
next
  assume h: "dict_get fk (lit ''repository'') (JDict []) = JDict frepo"
    "dict_get fk (lit ''forkee'') (JDict []) = JDict forkee"
    "dict_get fk (lit ''sender'') (JDict []) = JDict fsender"
  show "process_fork_event rp (JDict fk) = Inr (concat
       [[0x1F374], lit '' **New Fork!**'', [10, 10],
        [0x1F4E6], lit '' Repository: '',
        py_str rp (dict_get frepo (lit ''full_name'') (JStr (lit ''Unknown''))), [10],
        [0x1F464], lit '' Forked by: '',
        py_str rp (dict_get fsender (lit ''login'') (JStr (lit ''Unknown''))), [10],
        [0x1F4CA], lit '' Total forks: '',
        py_str rp (dict_get frepo (lit ''forks_count'') (JInt 0)), [10, 10],
        [0x1F517], lit '' [View Fork]('',
        py_str rp (dict_get forkee (lit ''html_url'') (JStr [])), lit '')''])"
    unfolding process_fork_event_def fork_body_dict [OF h]
    by (simp only: catch_cases)
next
  assume h: "dict_get rk (lit ''action'') (JStr []) = JStr (lit ''published'')"
    "dict_get rk (lit ''release'') (JDict []) = JDict release"
    "dict_get rk (lit ''repository'') (JDict []) = JDict rrepo"
    "dict_get release (lit ''author'') (JDict []) = JDict rauthor"
  show "process_release_event rp (JDict rk) = Inr (concat
       [[0x1F680], lit '' **New Release!**'', [10, 10],
        [0x1F4E6], lit '' Repository: '',
        py_str rp (dict_get rrepo (lit ''full_name'') (JStr (lit ''Unknown''))), [10],
        [0x1F3F7, 0xFE0F], lit '' Release: '',
        py_str rp (dict_get release (lit ''name'')
                     (dict_get release (lit ''tag_name'') (JStr (lit ''Unknown'')))),
        lit '' ('', py_str rp (dict_get release (lit ''tag_name'') (JStr (lit ''Unknown''))),
        lit '')'', [10],
        [0x1F464], lit '' Author: '',
        py_str rp (dict_get rauthor (lit ''login'') (JStr (lit ''Unknown''))), [10, 10],
        [0x1F517], lit '' [View Release]('',
        py_str rp (dict_get release (lit ''html_url'') (JStr [])), lit '')''])"
    unfolding process_release_event_def release_body_dict [OF h]
    by (simp only: catch_cases)
qed


text \<open>
  An absent and a null title, then every event type with every optional field absent.
\<close>

theorem absent_fields_get_fixed_defaults_witness:
  "dict_get [] (lit ''title'') (JStr (lit ''No title'')) = JStr (lit ''No title'') \<and>
   dict_get [(lit ''title'', JNull)] (lit ''title'') (JStr (lit ''No title'')) = JNull \<and>
   commit_entry (\<lambda>v. []) (JDict []) = Inr (concat
     [[0x1F538], lit '' **No message**'', [10],
      [0x1F464], lit '' Unknown '', [0x2022], lit '' ``'', [10, 10]]) \<and>
   process_push_event (\<lambda>v. []) (JDict [(lit ''commits'', JList [JDict []])]) = Inr (concat
     [[0x1F4DD], lit '' **New commit to Unknown**'', [10, 10],
      [0x1F33F], lit '' Branch: ``'', [10],
      [0x1F464], lit '' Pusher: Unknown'', [10],
      [0x1F4CA], lit '' 1 commit'', [10, 10],
      [0x1F538], lit '' **No message**'', [10],
      [0x1F464], lit '' Unknown '', [0x2022], lit '' ``'', [10, 10],
      [0x1F517], lit '' [View Repository]()'']) \<and>
   process_pull_request_event (\<lambda>v. []) (JDict [(lit ''action'', JStr (lit ''closed''))]) =
   Inr (concat
     [[0x1F534], lit '' **Pull Request Closed**'', [10, 10],
      [0x1F4E6], lit '' Repository: Unknown'', [10],
      [0x1F527], lit '' PR #0: No title'', [10],
      [0x1F464], lit '' Author: Unknown'', [10, 10],
      [0x1F517], lit '' [View Pull Request]()'']) \<and>
   process_issues_event (\<lambda>v. []) (JDict [(lit ''action'', JStr (lit ''reopened''))]) =
   Inr (concat
     [[0x1F7E1], lit '' **Issue Reopened**'', [10, 10],
      [0x1F4E6], lit '' Repository: Unknown'', [10],
      [0x1F41B], lit '' Issue #0: No title'', [10],
      [0x1F464], lit '' Author: Unknown'', [10, 10],
      [0x1F517], lit '' [View Issue]()'']) \<and>
   process_star_event (\<lambda>v. []) (JDict [(lit ''action'', JStr (lit ''created''))]) =
   Inr (concat
     [[0x2B50], lit '' **New Star!**'', [10, 10],
      [0x1F4E6], lit '' Repository: Unknown'', [10],
      [0x1F464], lit '' Starred by: Unknown'', [10],
      [0x1F4CA], lit '' Total stars: 0'', [10, 10],
      [0x1F517], lit '' [View Repository]()'']) \<and>
   process_fork_event (\<lambda>v. []) (JDict []) = Inr (concat
     [[0x1F374], lit '' **New Fork!**'', [10, 10],
      [0x1F4E6], lit '' Repository: Unknown'', [10],
      [0x1F464], lit '' Forked by: Unknown'', [10],
      [0x1F4CA], lit '' Total forks: 0'', [10, 10],
      [0x1F517], lit '' [View Fork]()'']) \<and>
   process_release_event (\<lambda>v. []) (JDict [(lit ''action'', JStr (lit ''published''))]) =
   Inr (concat
     [[0x1F680], lit '' **New Release!**'', [10, 10],
      [0x1F4E6], lit '' Repository: Unknown'', [10],
      [0x1F3F7, 0xFE0F], lit '' Release: Unknown (Unknown)'', [10],
      [0x1F464], lit '' Author: Unknown'', [10, 10],
      [0x1F517], lit '' [View Release]()''])"
  using absent_fields_get_fixed_defaults [where rp = "\<lambda>v. []"
      and akvs = "[]" and akey = "lit ''title''" and adflt = "JStr (lit ''No title'')"
      and pkvs = "[(lit ''title'', JNull)]" and pkey = "lit ''title''" and pval = JNull
      and pdflt = "JStr (lit ''No title'')"
      and ck = "[]" and cauthor = "[]" and cid = "JStr []"
      and hk = "[(lit ''commits'', JList [JDict []])]" and hrepo = "[]" and hpusher = "[]"
      and r = "[]" and cs = "[JDict []]"
      and entries = "concat [[0x1F538], lit '' **No message**'', [10],
                             [0x1F464], lit '' Unknown '', [0x2022], lit '' ``'', [10, 10]]"
      and pk = "[(lit ''action'', JStr (lit ''closed''))]" and pa = "lit ''closed''"
      and pr = "[]" and prepo = "[]" and puser = "[]"
      and ik = "[(lit ''action'', JStr (lit ''reopened''))]" and ia = "lit ''reopened''"
      and issue = "[]" and irepo = "[]" and iuser = "[]"
      and sk = "[(lit ''action'', JStr (lit ''created''))]" and srepo = "[]" and ssender = "[]"
      and fk = "[]" and frepo = "[]" and forkee = "[]" and fsender = "[]"
      and rk = "[(lit ''action'', JStr (lit ''published''))]" and release = "[]"
      and rrepo = "[]" and rauthor = "[]"]
  by (simp add: dict_get_def py_slice_def py_str_def str_int_def str_nat_digit commit_entry_def
      startswith_def lit_def)

end
